theory Spec2Isabelle
  imports Complex_Main
begin

section \<open>Errors\<close>

text \<open>
  The exceptions the module can raise.  Every shape failure of the tensor library is a
  \<open>RuntimeError\<close>; the other constructors are the Python exceptions of the same name.
\<close>

datatype error =
    AssertionError
  | ZeroDivisionError
  | IndexError
  | KeyError
  | ValueError
  | RuntimeError

definition ebind :: "error + 'a \<Rightarrow> ('a \<Rightarrow> error + 'b) \<Rightarrow> error + 'b" where
  "ebind m f = (case m of Inl e \<Rightarrow> Inl e | Inr x \<Rightarrow> f x)"

section \<open>Tensors\<close>

text \<open>
  A tensor is its size together with its entries, read by index.  The rank is fixed by the
  type: the module uses rank 1 (biases, normalisation vectors), rank 2 (projection weights),
  rank 3 (feature tensors, (Batch, Sequence, Features)), rank 4 (per-head tensors and the
  causal mask) and rank 5 (the stacked key/value cache).  Entries are real numbers: the
  arithmetic of the code is read exactly, without rounding, overflow or NaN, with one
  exception: the exponential of the softmax underflows to zero as it does in single
  precision.
  Only entries whose index lies inside the size are ever read.
\<close>

record t1 =
  d10 :: nat
  el1 :: "nat \<Rightarrow> real"

record t2 =
  d20 :: nat
  d21 :: nat
  el2 :: "nat \<Rightarrow> nat \<Rightarrow> real"

record t3 =
  d30 :: nat
  d31 :: nat
  d32 :: nat
  el3 :: "nat \<Rightarrow> nat \<Rightarrow> nat \<Rightarrow> real"

record t4 =
  d40 :: nat
  d41 :: nat
  d42 :: nat
  d43 :: nat
  el4 :: "nat \<Rightarrow> nat \<Rightarrow> nat \<Rightarrow> nat \<Rightarrow> real"

record t5 =
  d50 :: nat
  d51 :: nat
  d52 :: nat
  d53 :: nat
  d54 :: nat
  el5 :: "nat \<Rightarrow> nat \<Rightarrow> nat \<Rightarrow> nat \<Rightarrow> nat \<Rightarrow> real"

subsection \<open>Broadcasting\<close>

text \<open>
  Two sizes along one axis are compatible when they are equal or one of them is 1; the
  result has the other size, and the operand of size 1 is read at index 0.
\<close>

definition bc_ok :: "nat \<Rightarrow> nat \<Rightarrow> bool" where
  "bc_ok m n = (m = n \<or> m = 1 \<or> n = 1)"

definition bc :: "nat \<Rightarrow> nat \<Rightarrow> nat" where
  "bc m n = (if m = 1 then n else m)"

definition bix :: "nat \<Rightarrow> nat \<Rightarrow> nat" where
  "bix m i = (if m = 1 then 0 else i)"

definition binop3 :: "(real \<Rightarrow> real \<Rightarrow> real) \<Rightarrow> t3 \<Rightarrow> t3 \<Rightarrow> error + t3" where
  "binop3 f x y =
     (if bc_ok (d30 x) (d30 y) \<and> bc_ok (d31 x) (d31 y) \<and> bc_ok (d32 x) (d32 y)
      then Inr \<lparr> d30 = bc (d30 x) (d30 y), d31 = bc (d31 x) (d31 y), d32 = bc (d32 x) (d32 y),
                 el3 = (\<lambda>b t k. f (el3 x (bix (d30 x) b) (bix (d31 x) t) (bix (d32 x) k))
                                    (el3 y (bix (d30 y) b) (bix (d31 y) t) (bix (d32 y) k))) \<rparr>
      else Inl RuntimeError)"

definition binop4 :: "(real \<Rightarrow> real \<Rightarrow> real) \<Rightarrow> t4 \<Rightarrow> t4 \<Rightarrow> error + t4" where
  "binop4 f x y =
     (if bc_ok (d40 x) (d40 y) \<and> bc_ok (d41 x) (d41 y) \<and> bc_ok (d42 x) (d42 y)
         \<and> bc_ok (d43 x) (d43 y)
      then Inr \<lparr> d40 = bc (d40 x) (d40 y), d41 = bc (d41 x) (d41 y),
                 d42 = bc (d42 x) (d42 y), d43 = bc (d43 x) (d43 y),
                 el4 = (\<lambda>b g i j.
                    f (el4 x (bix (d40 x) b) (bix (d41 x) g) (bix (d42 x) i) (bix (d43 x) j))
                      (el4 y (bix (d40 y) b) (bix (d41 y) g) (bix (d42 y) i) (bix (d43 y) j))) \<rparr>
      else Inl RuntimeError)"

definition map3 :: "(real \<Rightarrow> real) \<Rightarrow> t3 \<Rightarrow> t3" where
  "map3 f x = x \<lparr> el3 := (\<lambda>b t k. f (el3 x b t k)) \<rparr>"

definition map4 :: "(real \<Rightarrow> real) \<Rightarrow> t4 \<Rightarrow> t4" where
  "map4 f x = x \<lparr> el4 := (\<lambda>b g i j. f (el4 x b g i j)) \<rparr>"

text \<open>A rank-1 tensor against a rank-3 tensor: the vector is aligned with the last axis.\<close>

definition up13 :: "t1 \<Rightarrow> t3" where
  "up13 w = \<lparr> d30 = 1, d31 = 1, d32 = d10 w, el3 = (\<lambda>b t k. el1 w k) \<rparr>"

subsection \<open>Reductions and products\<close>

text \<open>\<open>x.mean(-1, keepdim=True)\<close>: the mean over the last axis, which is kept with size 1.\<close>

definition mean_last :: "t3 \<Rightarrow> t3" where
  "mean_last x =
     \<lparr> d30 = d30 x, d31 = d31 x, d32 = 1,
       el3 = (\<lambda>b t k. (\<Sum>f < d32 x. el3 x b t f) / real (d32 x)) \<rparr>"

text \<open>
  \<open>nn.Softmax(dim=-1)\<close>.  The tensor library subtracts the maximum of the row from every
  entry of the row before it exponentiates.  Tensors are single precision unless converted,
  and in single precision the exponential of a number at or below \<open>-104\<close> is zero:
  \<open>exp (-104)\<close> is less than half the smallest positive number.  Above \<open>-104\<close> the
  exponential is read exactly.
\<close>

definition exp_single :: "real \<Rightarrow> real" where
  "exp_single z = (if z \<le> - 104 then 0 else exp z)"

definition row_max :: "t4 \<Rightarrow> nat \<Rightarrow> nat \<Rightarrow> nat \<Rightarrow> real" where
  "row_max w b g i = Max ((\<lambda>k. el4 w b g i k) ` {..< d43 w})"

definition softmax4 :: "t4 \<Rightarrow> t4" where
  "softmax4 w =
     w \<lparr> el4 := (\<lambda>b g i j. exp_single (el4 w b g i j - row_max w b g i)
                            / (\<Sum>k < d43 w. exp_single (el4 w b g i k - row_max w b g i))) \<rparr>"

text \<open>
  \<open>torch.matmul\<close> on two rank-4 tensors: a matrix product over the last two axes, the two
  leading axes broadcast.  The inner sizes must agree.
\<close>

definition matmul4 :: "t4 \<Rightarrow> t4 \<Rightarrow> error + t4" where
  "matmul4 x y =
     (if bc_ok (d40 x) (d40 y) \<and> bc_ok (d41 x) (d41 y) \<and> d43 x = d42 y
      then Inr \<lparr> d40 = bc (d40 x) (d40 y), d41 = bc (d41 x) (d41 y),
                 d42 = d42 x, d43 = d43 y,
                 el4 = (\<lambda>b g i j. \<Sum>d < d43 x.
                    el4 x (bix (d40 x) b) (bix (d41 x) g) i d
                  * el4 y (bix (d40 y) b) (bix (d41 y) g) d j) \<rparr>
      else Inl RuntimeError)"

subsection \<open>Views, permutations, concatenation\<close>

text \<open>\<open>x.view(B, T, H, D)\<close> of a (B, T, F) tensor: the element count must be the same.\<close>

definition view34 :: "t3 \<Rightarrow> nat \<Rightarrow> nat \<Rightarrow> error + t4" where
  "view34 x hh dd =
     (if d30 x * d31 x * d32 x = d30 x * d31 x * hh * dd
      then Inr \<lparr> d40 = d30 x, d41 = d31 x, d42 = hh, d43 = dd,
                 el4 = (\<lambda>b t g d. el3 x b t (g * dd + d)) \<rparr>
      else Inl RuntimeError)"

text \<open>\<open>x.view(B, T, H * D)\<close> of a contiguous (B, T, H, D) tensor.\<close>

definition view43 :: "t4 \<Rightarrow> t3" where
  "view43 x =
     \<lparr> d30 = d40 x, d31 = d41 x, d32 = d42 x * d43 x,
       el3 = (\<lambda>b t k. el4 x b t (k div d43 x) (k mod d43 x)) \<rparr>"

definition permute_0213 :: "t4 \<Rightarrow> t4" where
  "permute_0213 x =
     \<lparr> d40 = d40 x, d41 = d42 x, d42 = d41 x, d43 = d43 x,
       el4 = (\<lambda>b g t d. el4 x b t g d) \<rparr>"

definition permute_0231 :: "t4 \<Rightarrow> t4" where
  "permute_0231 x =
     \<lparr> d40 = d40 x, d41 = d42 x, d42 = d43 x, d43 = d41 x,
       el4 = (\<lambda>b g d t. el4 x b t g d) \<rparr>"

text \<open>\<open>x.transpose(-2, -1)\<close>.\<close>

definition transpose4 :: "t4 \<Rightarrow> t4" where
  "transpose4 x =
     \<lparr> d40 = d40 x, d41 = d41 x, d42 = d43 x, d43 = d42 x,
       el4 = (\<lambda>b g i j. el4 x b g j i) \<rparr>"

text \<open>\<open>torch.cat((x, y), dim=-1)\<close> and \<open>torch.cat((x, y), dim=-2)\<close>: all other sizes must agree.\<close>

definition cat_last :: "t4 \<Rightarrow> t4 \<Rightarrow> error + t4" where
  "cat_last x y =
     (if d40 x = d40 y \<and> d41 x = d41 y \<and> d42 x = d42 y
      then Inr \<lparr> d40 = d40 x, d41 = d41 x, d42 = d42 x, d43 = d43 x + d43 y,
                 el4 = (\<lambda>b g i j. if j < d43 x then el4 x b g i j
                                   else el4 y b g i (j - d43 x)) \<rparr>
      else Inl RuntimeError)"

definition cat_dim2 :: "t4 \<Rightarrow> t4 \<Rightarrow> error + t4" where
  "cat_dim2 x y =
     (if d40 x = d40 y \<and> d41 x = d41 y \<and> d43 x = d43 y
      then Inr \<lparr> d40 = d40 x, d41 = d41 x, d42 = d42 x + d42 y, d43 = d43 x,
                 el4 = (\<lambda>b g i j. if i < d42 x then el4 x b g i j
                                   else el4 y b g (i - d42 x) j) \<rparr>
      else Inl RuntimeError)"

text \<open>\<open>torch.stack((x, y))\<close>: both tensors must have the same size.\<close>

definition stack2 :: "t4 \<Rightarrow> t4 \<Rightarrow> error + t5" where
  "stack2 x y =
     (if d40 x = d40 y \<and> d41 x = d41 y \<and> d42 x = d42 y \<and> d43 x = d43 y
      then Inr \<lparr> d50 = 2, d51 = d40 x, d52 = d41 x, d53 = d42 x, d54 = d43 x,
                 el5 = (\<lambda>s. if s = 0 then el4 x else el4 y) \<rparr>
      else Inl RuntimeError)"

text \<open>\<open>p[i]\<close> on a rank-5 tensor, for a non-negative index.\<close>

definition select5 :: "t5 \<Rightarrow> nat \<Rightarrow> error + t4" where
  "select5 p i =
     (if i < d50 p
      then Inr \<lparr> d40 = d51 p, d41 = d52 p, d42 = d53 p, d43 = d54 p, el4 = el5 p i \<rparr>
      else Inl IndexError)"

text \<open>
  \<open>x.split(n, dim=2)\<close> unpacked into three names: the last axis is cut into chunks of
  size \<open>n\<close> (the last one may be shorter), and there must be exactly three of them.
\<close>

definition chunk3 :: "t3 \<Rightarrow> nat \<Rightarrow> nat \<Rightarrow> t3" where
  "chunk3 x off len =
     \<lparr> d30 = d30 x, d31 = d31 x, d32 = len, el3 = (\<lambda>b t k. el3 x b t (off + k)) \<rparr>"

definition split3 :: "t3 \<Rightarrow> nat \<Rightarrow> error + (t3 \<times> t3 \<times> t3)" where
  "split3 x n =
     (if n = 0 then (if d32 x = 0 then Inl ValueError else Inl RuntimeError)
      else if (d32 x + n - 1) div n \<noteq> 3 then Inl ValueError
      else Inr (chunk3 x 0 n, chunk3 x n n, chunk3 x (2 * n) (d32 x - 2 * n)))"

text \<open>
  A Python slice \<open>[lo:hi]\<close> of an axis of size \<open>n\<close>: negative bounds count from the end,
  and both bounds are clamped to the axis, so that slicing never raises.
\<close>

definition py_clamp :: "int \<Rightarrow> nat \<Rightarrow> nat" where
  "py_clamp i n = (if i < 0 then nat (max (i + int n) 0) else min (nat i) n)"

definition slice_rows_cols :: "t4 \<Rightarrow> int \<Rightarrow> int \<Rightarrow> int \<Rightarrow> t4" where
  "slice_rows_cols m lo hi hc =
     \<lparr> d40 = d40 m, d41 = d41 m,
       d42 = py_clamp hi (d42 m) - py_clamp lo (d42 m),
       d43 = py_clamp hc (d43 m),
       el4 = (\<lambda>b g i j. el4 m b g (py_clamp lo (d42 m) + i) j) \<rparr>"

section \<open>Parameter store\<close>

text \<open>
  Parameters and buffers are tensor objects that modules refer to.  The store holds them
  by address; \<open>fresh\<close> is the next unused address and \<open>rnd\<close> the stream of samples that
  the random initialisers consume.
\<close>

record store =
  vecs :: "nat \<Rightarrow> t1"
  mats :: "nat \<Rightarrow> t2"
  bufs :: "nat \<Rightarrow> t4"
  fresh :: nat
  rnd :: "nat \<Rightarrow> real"

section \<open>Modules\<close>

record layernorm =
  ln_weight :: nat
  ln_bias :: nat
  variance_epsilon :: real

record conv1d =
  nf :: nat
  weight :: nat
  bias :: nat

record attention =
  attn_bias :: nat
  n_head :: nat
  split_size :: nat
  attn_scale :: bool
  c_attn :: conv1d
  c_proj :: conv1d

record mlp =
  c_fc :: conv1d
  mlp_c_proj :: conv1d

record block =
  ln_1 :: layernorm
  attn :: attention
  ln_2 :: layernorm
  mlp :: mlp

record gpt2 =
  nb_layer :: nat
  h_blocks :: "block list"
  ln_f :: layernorm

subsection \<open>LayerNorm.forward\<close>

definition LayerNorm_forward :: "store \<Rightarrow> layernorm \<Rightarrow> t3 \<Rightarrow> error + t3" where
  "LayerNorm_forward \<sigma> m x =
     (let u = mean_last x in
      ebind (binop3 (-) x u) (\<lambda>xu.
      let s = mean_last (map3 (\<lambda>z. z ^ 2) xu) in
      ebind (binop3 (-) x u) (\<lambda>xu'.
      ebind (binop3 (/) xu' (map3 (\<lambda>z. sqrt (z + variance_epsilon m)) s)) (\<lambda>x'.
      ebind (binop3 (*) (up13 (vecs \<sigma> (ln_weight m))) x') (\<lambda>wx.
      binop3 (+) wx (up13 (vecs \<sigma> (ln_bias m))))))))"

subsection \<open>Conv1D.forward\<close>

text \<open>
  \<open>torch.addmm(bias, x.view(-1, x.size(-1)), weight)\<close> followed by the view back to the
  leading sizes of \<open>x\<close> and \<open>nf\<close> features.  The view to two axes fails on an empty last
  axis, the product fails unless the last axis of \<open>x\<close> has as many entries as the weight has
  rows, the bias must broadcast against the product, and the final view must keep the
  element count.
\<close>

definition addmm_at :: "t1 \<Rightarrow> t3 \<Rightarrow> t2 \<Rightarrow> nat \<Rightarrow> nat \<Rightarrow> nat \<Rightarrow> real" where
  "addmm_at bv x w b t j = el1 bv (bix (d10 bv) j) + (\<Sum>k < d32 x. el3 x b t k * el2 w k j)"

definition Conv1D_forward :: "store \<Rightarrow> conv1d \<Rightarrow> t3 \<Rightarrow> error + t3" where
  "Conv1D_forward \<sigma> c x =
     (let w = mats \<sigma> (weight c); bv = vecs \<sigma> (bias c) in
      if d32 x = 0 then Inl RuntimeError
      else if d32 x \<noteq> d20 w then Inl RuntimeError
      else if \<not> (d10 bv = d21 w \<or> d10 bv = 1) then Inl RuntimeError
      else if d30 x * d31 x * d21 w \<noteq> d30 x * d31 x * nf c then Inl RuntimeError
      else Inr \<lparr> d30 = d30 x, d31 = d31 x, d32 = nf c, el3 = addmm_at bv x w \<rparr>)"

subsection \<open>gelu and MLP.forward\<close>

definition gelu :: "real \<Rightarrow> real" where
  "gelu x = 0.5 * x * (1 + tanh (sqrt (2 / pi) * (x + 0.044715 * x ^ 3)))"

definition MLP_forward :: "store \<Rightarrow> mlp \<Rightarrow> t3 \<Rightarrow> error + t3" where
  "MLP_forward \<sigma> m x =
     ebind (Conv1D_forward \<sigma> (c_fc m) x) (\<lambda>y.
     let hh = map3 gelu y in
     Conv1D_forward \<sigma> (mlp_c_proj m) hh)"

subsection \<open>Attention\<close>

text \<open>
  \<open>split_heads\<close>: the last axis is viewed as (heads, head features), with the head
  feature count the floor quotient of the last size by \<open>n_head\<close>, then the axes are
  permuted to (batch, head, seq, head features), or to (batch, head, head features, seq)
  for keys.
\<close>

definition split_heads :: "attention \<Rightarrow> t3 \<Rightarrow> bool \<Rightarrow> error + t4" where
  "split_heads a x k =
     (if n_head a = 0 then Inl ZeroDivisionError
      else ebind (view34 x (n_head a) (d32 x div n_head a)) (\<lambda>y.
           Inr (if k then permute_0231 y else permute_0213 y)))"

definition merge_heads :: "t4 \<Rightarrow> t3" where
  "merge_heads x = view43 (permute_0213 x)"

text \<open>
  \<open>_attn\<close>.  The buffer \<open>bias\<close> is the (1, 1, S, S) lower-triangular mask; it is sliced
  to rows \<open>ns - nd\<close> up to \<open>ns\<close> and columns up to \<open>ns\<close>, and the slice is broadcast
  against the scores.
\<close>

definition Attention_scores :: "attention \<Rightarrow> t4 \<Rightarrow> t4 \<Rightarrow> t4 \<Rightarrow> error + t4" where
  "Attention_scores a q k v =
     ebind (matmul4 q k) (\<lambda>w.
     Inr (if attn_scale a then map4 (\<lambda>z. z / sqrt (real (d43 v))) w else w))"

definition Attention_mask :: "store \<Rightarrow> attention \<Rightarrow> t4 \<Rightarrow> t4" where
  "Attention_mask \<sigma> a w =
     (let nd = d42 w; ns = d43 w
      in slice_rows_cols (bufs \<sigma> (attn_bias a)) (int ns - int nd) (int ns) (int ns))"

definition Attention_masked :: "store \<Rightarrow> attention \<Rightarrow> t4 \<Rightarrow> error + t4" where
  "Attention_masked \<sigma> a w =
     (let b = Attention_mask \<sigma> a w in
      ebind (binop4 (*) w b) (\<lambda>wb.
      binop4 (-) wb (map4 (\<lambda>z. 10 ^ 10 * z) (map4 (\<lambda>z. 1 - z) b))))"

definition Attention_attn :: "store \<Rightarrow> attention \<Rightarrow> t4 \<Rightarrow> t4 \<Rightarrow> t4 \<Rightarrow> error + t4" where
  "Attention_attn \<sigma> a q k v =
     ebind (Attention_scores a q k v) (\<lambda>w.
     ebind (Attention_masked \<sigma> a w) (\<lambda>w'.
     matmul4 (softmax4 w') v))"

text \<open>
  Concatenation of the cached prefix: the cached key is stored transposed and is
  transposed back before it is joined with the new key along the last axis.
\<close>

definition with_past :: "t5 option \<Rightarrow> t4 \<Rightarrow> t4 \<Rightarrow> error + (t4 \<times> t4)" where
  "with_past layer_past key val =
     (case layer_past of
        None \<Rightarrow> Inr (key, val)
      | Some p \<Rightarrow>
          ebind (select5 p 0) (\<lambda>p0.
          ebind (select5 p 1) (\<lambda>past_value.
          let past_key = transpose4 p0 in
          ebind (cat_last past_key key) (\<lambda>key'.
          ebind (cat_dim2 past_value val) (\<lambda>val'.
          Inr (key', val'))))))"

text \<open>The projection to query, key and value and their split into heads.\<close>

definition Attention_qkv :: "store \<Rightarrow> attention \<Rightarrow> t3 \<Rightarrow> error + (t4 \<times> t4 \<times> t4)" where
  "Attention_qkv \<sigma> a x =
     ebind (Conv1D_forward \<sigma> (c_attn a) x) (\<lambda>x1.
     ebind (split3 x1 (split_size a)) (\<lambda>(query0, key0, value0).
     ebind (split_heads a query0 False) (\<lambda>query.
     ebind (split_heads a key0 True) (\<lambda>key1.
     ebind (split_heads a value0 False) (\<lambda>value1.
     Inr (query, key1, value1))))))"

definition Attention_forward ::
  "store \<Rightarrow> attention \<Rightarrow> t3 \<Rightarrow> t5 option \<Rightarrow> error + (t3 \<times> t5)" where
  "Attention_forward \<sigma> a x layer_past =
     ebind (Attention_qkv \<sigma> a x) (\<lambda>(query, key1, value1).
     ebind (with_past layer_past key1 value1) (\<lambda>(key, val).
     ebind (stack2 (transpose4 key) val) (\<lambda>present.
     ebind (Attention_attn \<sigma> a query key val) (\<lambda>a1.
     ebind (Conv1D_forward \<sigma> (c_proj a) (merge_heads a1)) (\<lambda>a2.
     Inr (a2, present))))))"

subsection \<open>Block.forward\<close>

definition Block_forward ::
  "store \<Rightarrow> block \<Rightarrow> t3 \<Rightarrow> t5 option \<Rightarrow> error + (t3 \<times> t5)" where
  "Block_forward \<sigma> bl x layer_past =
     ebind (LayerNorm_forward \<sigma> (ln_1 bl) x) (\<lambda>n1.
     ebind (Attention_forward \<sigma> (attn bl) n1 layer_past) (\<lambda>(a, present).
     ebind (binop3 (+) x a) (\<lambda>x1.
     ebind (LayerNorm_forward \<sigma> (ln_2 bl) x1) (\<lambda>n2.
     ebind (MLP_forward \<sigma> (mlp bl) n2) (\<lambda>m.
     ebind (binop3 (+) x1 m) (\<lambda>x2.
     Inr (x2, present)))))))"

subsection \<open>GPT2._forward\<close>

text \<open>
  The per-layer state is a dictionary from layer index to that layer's cache or
  \<open>None\<close>.  The loop reads \<open>self.h[i]\<close> and \<open>internals[i]\<close>, either of which can
  raise, and appends the block's cache to \<open>new_internals\<close>.
\<close>

type_synonym internals = "nat \<Rightarrow> t5 option option"

fun forward_loop ::
  "store \<Rightarrow> gpt2 \<Rightarrow> internals \<Rightarrow> nat list \<Rightarrow> t3 \<Rightarrow> t5 list \<Rightarrow> error + (t3 \<times> t5 list)" where
  "forward_loop \<sigma> g ints [] x new_internals = Inr (x, new_internals)"
| "forward_loop \<sigma> g ints (i # rest) x new_internals =
     (if length (h_blocks g) \<le> i then Inl IndexError
      else case ints i of
        None \<Rightarrow> Inl KeyError
      | Some layer_past \<Rightarrow>
          ebind (Block_forward \<sigma> (h_blocks g ! i) x layer_past) (\<lambda>(x', internal).
          forward_loop \<sigma> g ints rest x' (new_internals @ [internal])))"

definition dict_enumerate :: "'a list \<Rightarrow> nat \<Rightarrow> 'a option" where
  "dict_enumerate xs = (\<lambda>i. if i < length xs then Some (xs ! i) else None)"

definition GPT2_forward ::
  "store \<Rightarrow> gpt2 \<Rightarrow> t3 \<Rightarrow> internals \<Rightarrow> error + (t3 \<times> (nat \<Rightarrow> t5 option))" where
  "GPT2_forward \<sigma> g input ints =
     ebind (forward_loop \<sigma> g ints [0 ..< nb_layer g] input []) (\<lambda>(x, new_internals).
     ebind (LayerNorm_forward \<sigma> (ln_f g) x) (\<lambda>y.
     Inr (y, dict_enumerate new_internals)))"

definition GPT2_new_internals :: "gpt2 \<Rightarrow> internals" where
  "GPT2_new_internals g = dict_enumerate (replicate (nb_layer g) None)"

section \<open>Construction\<close>

subsection \<open>Allocation and initialisers\<close>

definition new_vec :: "t1 \<Rightarrow> store \<Rightarrow> nat \<times> store" where
  "new_vec v \<sigma> = (fresh \<sigma>, \<sigma> \<lparr> vecs := (vecs \<sigma>)(fresh \<sigma> := v), fresh := Suc (fresh \<sigma>) \<rparr>)"

definition new_mat :: "t2 \<Rightarrow> store \<Rightarrow> nat \<times> store" where
  "new_mat m \<sigma> = (fresh \<sigma>, \<sigma> \<lparr> mats := (mats \<sigma>)(fresh \<sigma> := m), fresh := Suc (fresh \<sigma>) \<rparr>)"

definition new_buf :: "t4 \<Rightarrow> store \<Rightarrow> nat \<times> store" where
  "new_buf m \<sigma> = (fresh \<sigma>, \<sigma> \<lparr> bufs := (bufs \<sigma>)(fresh \<sigma> := m), fresh := Suc (fresh \<sigma>) \<rparr>)"

definition ones1 :: "nat \<Rightarrow> t1" where
  "ones1 n = \<lparr> d10 = n, el1 = (\<lambda>k. 1) \<rparr>"

definition zeros1 :: "nat \<Rightarrow> t1" where
  "zeros1 n = \<lparr> d10 = n, el1 = (\<lambda>k. 0) \<rparr>"

text \<open>\<open>torch.tril(torch.ones(S, S)).view(1, 1, S, S)\<close>.\<close>

definition tril_ones :: "nat \<Rightarrow> t4" where
  "tril_ones s =
     \<lparr> d40 = 1, d41 = 1, d42 = s, d43 = s,
       el4 = (\<lambda>b g i j. if j \<le> i then 1 else 0) \<rparr>"

text \<open>
  Filling a matrix of the given size with normal samples of the given mean and standard
  deviation: entry \<open>(i, j)\<close> takes the next sample in row-major order, and the stream
  advances past the samples used.
\<close>

definition normal2 :: "nat \<Rightarrow> nat \<Rightarrow> real \<Rightarrow> real \<Rightarrow> store \<Rightarrow> t2 \<times> store" where
  "normal2 r c mean std \<sigma> =
     (\<lparr> d20 = r, d21 = c, el2 = (\<lambda>i j. mean + std * rnd \<sigma> (i * c + j)) \<rparr>,
      \<sigma> \<lparr> rnd := (\<lambda>k. rnd \<sigma> (k + r * c)) \<rparr>)"

subsection \<open>Module constructors\<close>

text \<open>\<open>LayerNorm.__init__(hidden_size, eps=1e-12)\<close>: \<open>None\<close> stands for an omitted \<open>eps\<close>.\<close>

definition LayerNorm_init :: "nat \<Rightarrow> real option \<Rightarrow> store \<Rightarrow> layernorm \<times> store" where
  "LayerNorm_init hidden_size eps \<sigma> =
     (let (w, \<sigma>1) = new_vec (ones1 hidden_size) \<sigma>;
          (b, \<sigma>2) = new_vec (zeros1 hidden_size) \<sigma>1
      in (\<lparr> ln_weight = w, ln_bias = b,
            variance_epsilon = (case eps of None \<Rightarrow> 1 / 10 ^ 12 | Some e \<Rightarrow> e) \<rparr>, \<sigma>2))"

definition Conv1D_init :: "nat \<Rightarrow> nat \<Rightarrow> store \<Rightarrow> conv1d \<times> store" where
  "Conv1D_init nf' nx \<sigma> =
     (let (w, \<sigma>1) = normal2 nx nf' 0 0.02 \<sigma>;
          (wa, \<sigma>2) = new_mat w \<sigma>1;
          (ba, \<sigma>3) = new_vec (zeros1 nf') \<sigma>2
      in (\<lparr> nf = nf', weight = wa, bias = ba \<rparr>, \<sigma>3))"

text \<open>
  \<open>Attention.__init__(feat_len, seq_len, nb_head, scale=False)\<close>.  The remainder by a zero
  head count raises before the assertion can compare it.
\<close>

definition Attention_init ::
  "nat \<Rightarrow> nat \<Rightarrow> nat \<Rightarrow> bool option \<Rightarrow> store \<Rightarrow> error + (attention \<times> store)" where
  "Attention_init feat_len seq_len nb_head scale \<sigma> =
     (if nb_head = 0 then Inl ZeroDivisionError
      else if feat_len mod nb_head \<noteq> 0 then Inl AssertionError
      else
        let (ma, \<sigma>1) = new_buf (tril_ones seq_len) \<sigma>;
            (ca, \<sigma>2) = Conv1D_init (feat_len * 3) feat_len \<sigma>1;
            (cp, \<sigma>3) = Conv1D_init feat_len feat_len \<sigma>2
        in Inr (\<lparr> attn_bias = ma, n_head = nb_head, split_size = feat_len,
                   attn_scale = (case scale of None \<Rightarrow> False | Some s \<Rightarrow> s),
                   c_attn = ca, c_proj = cp \<rparr>, \<sigma>3))"

definition MLP_init :: "nat \<Rightarrow> nat \<Rightarrow> store \<Rightarrow> mlp \<times> store" where
  "MLP_init n_state feat_len \<sigma> =
     (let (fc, \<sigma>1) = Conv1D_init n_state feat_len \<sigma>;
          (pr, \<sigma>2) = Conv1D_init feat_len n_state \<sigma>1
      in (\<lparr> c_fc = fc, mlp_c_proj = pr \<rparr>, \<sigma>2))"

definition Block_init ::
  "nat \<Rightarrow> nat \<Rightarrow> nat \<Rightarrow> real \<Rightarrow> bool option \<Rightarrow> store \<Rightarrow> error + (block \<times> store)" where
  "Block_init seq_len feat_len nb_head layer_norm_eps scale \<sigma> =
     (let (l1, \<sigma>1) = LayerNorm_init feat_len (Some layer_norm_eps) \<sigma> in
      ebind (Attention_init feat_len seq_len nb_head scale \<sigma>1) (\<lambda>(atn, \<sigma>2).
      let (l2, \<sigma>3) = LayerNorm_init feat_len (Some layer_norm_eps) \<sigma>2;
          (ml, \<sigma>4) = MLP_init (4 * feat_len) feat_len \<sigma>3
      in Inr (\<lparr> ln_1 = l1, attn = atn, ln_2 = l2, mlp = ml \<rparr>, \<sigma>4)))"

subsection \<open>Deep copy\<close>

text \<open>
  \<open>copy.deepcopy\<close> walks the object and copies every tensor it reaches into a new
  object; the memo maps each tensor already copied to its copy, so that a tensor reached
  twice is copied once.
\<close>

type_synonym memo = "(nat \<times> nat) list"

definition copy_vec :: "nat \<Rightarrow> memo \<times> store \<Rightarrow> nat \<times> memo \<times> store" where
  "copy_vec a ms =
     (case map_of (fst ms) a of
        Some a' \<Rightarrow> (a', ms)
      | None \<Rightarrow> (let (a', \<sigma>') = new_vec (vecs (snd ms) a) (snd ms)
                 in (a', (a, a') # fst ms, \<sigma>')))"

definition copy_mat :: "nat \<Rightarrow> memo \<times> store \<Rightarrow> nat \<times> memo \<times> store" where
  "copy_mat a ms =
     (case map_of (fst ms) a of
        Some a' \<Rightarrow> (a', ms)
      | None \<Rightarrow> (let (a', \<sigma>') = new_mat (mats (snd ms) a) (snd ms)
                 in (a', (a, a') # fst ms, \<sigma>')))"

definition copy_buf :: "nat \<Rightarrow> memo \<times> store \<Rightarrow> nat \<times> memo \<times> store" where
  "copy_buf a ms =
     (case map_of (fst ms) a of
        Some a' \<Rightarrow> (a', ms)
      | None \<Rightarrow> (let (a', \<sigma>') = new_buf (bufs (snd ms) a) (snd ms)
                 in (a', (a, a') # fst ms, \<sigma>')))"

definition deepcopy_layernorm :: "layernorm \<Rightarrow> memo \<times> store \<Rightarrow> layernorm \<times> memo \<times> store" where
  "deepcopy_layernorm m ms =
     (let (w, ms1) = copy_vec (ln_weight m) ms;
          (b, ms2) = copy_vec (ln_bias m) ms1
      in (\<lparr> ln_weight = w, ln_bias = b, variance_epsilon = variance_epsilon m \<rparr>, ms2))"

definition deepcopy_conv1d :: "conv1d \<Rightarrow> memo \<times> store \<Rightarrow> conv1d \<times> memo \<times> store" where
  "deepcopy_conv1d c ms =
     (let (w, ms1) = copy_mat (weight c) ms;
          (b, ms2) = copy_vec (bias c) ms1
      in (\<lparr> nf = nf c, weight = w, bias = b \<rparr>, ms2))"

definition deepcopy_attention :: "attention \<Rightarrow> memo \<times> store \<Rightarrow> attention \<times> memo \<times> store" where
  "deepcopy_attention a ms =
     (let (ma, ms1) = copy_buf (attn_bias a) ms;
          (ca, ms2) = deepcopy_conv1d (c_attn a) ms1;
          (cp, ms3) = deepcopy_conv1d (c_proj a) ms2
      in (\<lparr> attn_bias = ma, n_head = n_head a, split_size = split_size a,
            attn_scale = attn_scale a, c_attn = ca, c_proj = cp \<rparr>, ms3))"

definition deepcopy_mlp :: "mlp \<Rightarrow> memo \<times> store \<Rightarrow> mlp \<times> memo \<times> store" where
  "deepcopy_mlp m ms =
     (let (fc, ms1) = deepcopy_conv1d (c_fc m) ms;
          (pr, ms2) = deepcopy_conv1d (mlp_c_proj m) ms1
      in (\<lparr> c_fc = fc, mlp_c_proj = pr \<rparr>, ms2))"

definition deepcopy_block :: "block \<Rightarrow> store \<Rightarrow> block \<times> store" where
  "deepcopy_block bl \<sigma> =
     (let (l1, ms1) = deepcopy_layernorm (ln_1 bl) ([], \<sigma>);
          (atn, ms2) = deepcopy_attention (attn bl) ms1;
          (l2, ms3) = deepcopy_layernorm (ln_2 bl) ms2;
          (ml, ms4) = deepcopy_mlp (mlp bl) ms3
      in (\<lparr> ln_1 = l1, attn = atn, ln_2 = l2, mlp = ml \<rparr>, snd ms4))"

text \<open>\<open>[copy.deepcopy(block) for _ in range(nb_layer)]\<close>.\<close>

fun deepcopies :: "block \<Rightarrow> nat \<Rightarrow> store \<Rightarrow> block list \<times> store" where
  "deepcopies bl 0 \<sigma> = ([], \<sigma>)"
| "deepcopies bl (Suc n) \<sigma> =
     (let (b1, \<sigma>1) = deepcopy_block bl \<sigma>;
          (bs, \<sigma>2) = deepcopies bl n \<sigma>1
      in (b1 # bs, \<sigma>2))"

subsection \<open>Weight initialisation pass\<close>

text \<open>
  The modules that \<open>apply\<close> can meet, by class.  \<open>nn.Linear\<close> and \<open>nn.Embedding\<close> are
  classes of the tensor library, with a weight and, for \<open>nn.Linear\<close>, an optional bias.
\<close>

datatype module =
    M_Linear nat "nat option"
  | M_Embedding nat
  | M_LayerNorm layernorm
  | M_Conv1D conv1d
  | M_Attention attention
  | M_MLP mlp
  | M_Block block
  | M_ModuleList "block list"
  | M_GPT2 gpt2

definition normal_inplace :: "nat \<Rightarrow> real \<Rightarrow> real \<Rightarrow> store \<Rightarrow> store" where
  "normal_inplace a mean std \<sigma> =
     (let (w, \<sigma>1) = normal2 (d20 (mats \<sigma> a)) (d21 (mats \<sigma> a)) mean std \<sigma>
      in \<sigma>1 \<lparr> mats := (mats \<sigma>1)(a := w) \<rparr>)"

definition fill_inplace :: "nat \<Rightarrow> real \<Rightarrow> store \<Rightarrow> store" where
  "fill_inplace a c \<sigma> = \<sigma> \<lparr> vecs := (vecs \<sigma>)(a := (vecs \<sigma> a) \<lparr> el1 := (\<lambda>k. c) \<rparr>) \<rparr>"

definition init_weights :: "module \<Rightarrow> store \<Rightarrow> store" where
  "init_weights m \<sigma> =
     (let \<sigma>1 = (case m of
                  M_Linear w b \<Rightarrow> normal_inplace w 0 0.02 \<sigma>
                | M_Embedding w \<Rightarrow> normal_inplace w 0 0.02 \<sigma>
                | M_LayerNorm l \<Rightarrow> fill_inplace (ln_weight l) 1 (fill_inplace (ln_bias l) 0 \<sigma>)
                | _ \<Rightarrow> \<sigma>)
      in case m of
           M_Linear w (Some b) \<Rightarrow> fill_inplace b 0 \<sigma>1
         | _ \<Rightarrow> \<sigma>1)"

text \<open>
  \<open>module.apply(fn)\<close> calls \<open>fn\<close> on every submodule, children before their parent, in
  the order in which the children were registered.
\<close>

definition modules_conv1d :: "conv1d \<Rightarrow> module list" where
  "modules_conv1d c = [M_Conv1D c]"

definition modules_attention :: "attention \<Rightarrow> module list" where
  "modules_attention a = modules_conv1d (c_attn a) @ modules_conv1d (c_proj a) @ [M_Attention a]"

definition modules_mlp :: "mlp \<Rightarrow> module list" where
  "modules_mlp m = modules_conv1d (c_fc m) @ modules_conv1d (mlp_c_proj m) @ [M_MLP m]"

definition modules_block :: "block \<Rightarrow> module list" where
  "modules_block bl =
     [M_LayerNorm (ln_1 bl)] @ modules_attention (attn bl) @ [M_LayerNorm (ln_2 bl)]
     @ modules_mlp (mlp bl) @ [M_Block bl]"

definition modules_gpt2 :: "gpt2 \<Rightarrow> module list" where
  "modules_gpt2 g =
     concat (map modules_block (h_blocks g)) @ [M_ModuleList (h_blocks g)]
     @ [M_LayerNorm (ln_f g)] @ [M_GPT2 g]"

definition apply_init_weights :: "gpt2 \<Rightarrow> store \<Rightarrow> store" where
  "apply_init_weights g \<sigma> = fold init_weights (modules_gpt2 g) \<sigma>"

subsection \<open>GPT2.__init__\<close>

text \<open>
  \<open>input_shape[-2]\<close> and \<open>input_shape[-1]\<close> are the sequence and feature lengths; a shape
  with fewer than two entries raises.  The base class constructor is outside this file and
  registers no submodule.
\<close>

definition GPT2_init ::
  "nat list \<Rightarrow> nat \<Rightarrow> nat \<Rightarrow> real \<Rightarrow> store \<Rightarrow> error + (gpt2 \<times> store)" where
  "GPT2_init input_shape nb_layer' nb_head layer_norm_eps \<sigma> =
     (if length input_shape < 2 then Inl IndexError
      else
        let seq_len = input_shape ! (length input_shape - 2);
            feat_len = input_shape ! (length input_shape - 1)
        in ebind (Block_init seq_len feat_len nb_head layer_norm_eps (Some True) \<sigma>) (\<lambda>(bl, \<sigma>1).
           let (hs, \<sigma>2) = deepcopies bl nb_layer' \<sigma>1;
               (lf, \<sigma>3) = LayerNorm_init feat_len (Some layer_norm_eps) \<sigma>2;
               g = \<lparr> nb_layer = nb_layer', h_blocks = hs, ln_f = lf \<rparr>
           in Inr (g, apply_init_weights g \<sigma>3)))"

text \<open>The class attribute \<open>args\<close> and \<open>from_args\<close>.\<close>

record gpt2_args =
  args_nb_layer :: nat
  args_nb_head :: nat
  args_layer_norm_eps :: real

definition GPT2_args :: gpt2_args where
  "GPT2_args = \<lparr> args_nb_layer = 12, args_nb_head = 12, args_layer_norm_eps = 1 / 10 ^ 5 \<rparr>"

definition GPT2_from_args :: "gpt2_args \<Rightarrow> nat list \<Rightarrow> store \<Rightarrow> error + (gpt2 \<times> store)" where
  "GPT2_from_args args input_shape \<sigma> =
     GPT2_init input_shape (args_nb_layer args) (args_nb_head args) (args_layer_norm_eps args) \<sigma>"

section \<open>Well-formed modules and entry-wise descriptions\<close>

text \<open>
  The sizes that the constructors establish: a projection from \<open>nx\<close> features has an
  \<open>nx\<close> by \<open>nf\<close> weight and a bias of length \<open>nf\<close>; an attention module for \<open>F\<close>
  features and maximum length \<open>S\<close> has a head count that divides \<open>F\<close>, the \<open>S\<close> by
  \<open>S\<close> lower-triangular mask, a projection to \<open>3 * F\<close> features and one to \<open>F\<close>.
\<close>

definition conv1d_ok :: "store \<Rightarrow> conv1d \<Rightarrow> nat \<Rightarrow> bool" where
  "conv1d_ok \<sigma> c nx =
     (d20 (mats \<sigma> (weight c)) = nx \<and> d21 (mats \<sigma> (weight c)) = nf c
      \<and> d10 (vecs \<sigma> (bias c)) = nf c)"

definition attention_ok :: "store \<Rightarrow> attention \<Rightarrow> nat \<Rightarrow> nat \<Rightarrow> bool" where
  "attention_ok \<sigma> a F S =
     (0 < n_head a \<and> n_head a dvd F \<and> split_size a = F
      \<and> bufs \<sigma> (attn_bias a) = tril_ones S
      \<and> conv1d_ok \<sigma> (c_attn a) F \<and> nf (c_attn a) = 3 * F
      \<and> conv1d_ok \<sigma> (c_proj a) F \<and> nf (c_proj a) = F)"

text \<open>
  The entry of head \<open>g\<close>, position \<open>t\<close>, head feature \<open>d\<close> of the chunk of
  \<open>c_attn(x)\<close> that starts at feature \<open>off\<close>: offset \<open>0\<close> is the query, \<open>F\<close> the key
  and \<open>2 * F\<close> the value.
\<close>

definition head_proj :: "store \<Rightarrow> attention \<Rightarrow> t3 \<Rightarrow> nat \<Rightarrow> nat \<Rightarrow> nat \<Rightarrow> nat \<Rightarrow> nat \<Rightarrow> real" where
  "head_proj \<sigma> a x off b g t d =
     addmm_at (vecs \<sigma> (bias (c_attn a))) x (mats \<sigma> (weight (c_attn a))) b t
       (off + (g * (split_size a div n_head a) + d))"

definition tril_at :: "nat \<Rightarrow> nat \<Rightarrow> real" where
  "tril_at i j = (if j \<le> i then 1 else 0)"

text \<open>The cache handed to a forward call: its prefix length, its entries, its sizes.\<close>

definition past_len :: "t5 option \<Rightarrow> nat" where
  "past_len lp = (case lp of None \<Rightarrow> 0 | Some p \<Rightarrow> d53 p)"

definition past_el :: "t5 option \<Rightarrow> nat \<Rightarrow> nat \<Rightarrow> nat \<Rightarrow> nat \<Rightarrow> nat \<Rightarrow> real" where
  "past_el lp s = (case lp of None \<Rightarrow> (\<lambda>b g i d. 0) | Some p \<Rightarrow> el5 p s)"

definition past_ok :: "t5 option \<Rightarrow> nat \<Rightarrow> nat \<Rightarrow> nat \<Rightarrow> bool" where
  "past_ok lp B H D =
     (case lp of None \<Rightarrow> True
      | Some p \<Rightarrow> d50 p = 2 \<and> d51 p = B \<and> d52 p = H \<and> d54 p = D)"

text \<open>
  Scaled score, masked logit, attention weight and head output of query row \<open>i\<close>, written
  entry by entry for query \<open>q\<close>, key \<open>k\<close> and value \<open>v\<close>.
\<close>

definition score4 :: "attention \<Rightarrow> t4 \<Rightarrow> t4 \<Rightarrow> t4 \<Rightarrow> nat \<Rightarrow> nat \<Rightarrow> nat \<Rightarrow> nat \<Rightarrow> real" where
  "score4 a q k v b g i j =
     (let s = (\<Sum>d < d43 q. el4 q b g i d * el4 k b g d j)
      in if attn_scale a then s / sqrt (real (d43 v)) else s)"

definition logit4 :: "attention \<Rightarrow> t4 \<Rightarrow> t4 \<Rightarrow> t4 \<Rightarrow> nat \<Rightarrow> nat \<Rightarrow> nat \<Rightarrow> nat \<Rightarrow> real" where
  "logit4 a q k v b g i j =
     score4 a q k v b g i j * tril_at (d43 k - d42 q + i) j
     - 10 ^ 10 * (1 - tril_at (d43 k - d42 q + i) j)"

definition logit_max :: "attention \<Rightarrow> t4 \<Rightarrow> t4 \<Rightarrow> t4 \<Rightarrow> nat \<Rightarrow> nat \<Rightarrow> nat \<Rightarrow> real" where
  "logit_max a q k v b g i = Max ((\<lambda>c. logit4 a q k v b g i c) ` {..< d43 k})"

definition prob4 :: "attention \<Rightarrow> t4 \<Rightarrow> t4 \<Rightarrow> t4 \<Rightarrow> nat \<Rightarrow> nat \<Rightarrow> nat \<Rightarrow> nat \<Rightarrow> real" where
  "prob4 a q k v b g i j =
     exp_single (logit4 a q k v b g i j - logit_max a q k v b g i)
     / (\<Sum>c < d43 k. exp_single (logit4 a q k v b g i c - logit_max a q k v b g i))"

definition attn4 :: "attention \<Rightarrow> t4 \<Rightarrow> t4 \<Rightarrow> t4 \<Rightarrow> nat \<Rightarrow> nat \<Rightarrow> nat \<Rightarrow> nat \<Rightarrow> real" where
  "attn4 a q k v b g i d = (\<Sum>j < d43 k. prob4 a q k v b g i j * el4 v b g j d)"

text \<open>The size of the key held by the cache that a forward call returns.\<close>

definition returned_key_size :: "error + (t3 \<times> t5) \<Rightarrow> (nat \<times> nat \<times> nat \<times> nat) option" where
  "returned_key_size r =
     (case r of
        Inl e \<Rightarrow> None
      | Inr (y, pr) \<Rightarrow>
          (case select5 pr 0 of
             Inl e \<Rightarrow> None
           | Inr k \<Rightarrow> Some (d40 k, d41 k, d42 k, d43 k)))"





text \<open>
  The sizes of a normalisation for \<open>F\<close> features, of a feed-forward network with
  \<open>4 * F\<close> hidden features, and of a block; and the layout of a block whose tensors are
  allocated in the order of construction from the address \<open>a0\<close>.
\<close>

definition ln_ok :: "store \<Rightarrow> layernorm \<Rightarrow> nat \<Rightarrow> bool" where
  "ln_ok \<sigma> m F = (d10 (vecs \<sigma> (ln_weight m)) = F \<and> d10 (vecs \<sigma> (ln_bias m)) = F)"

definition mlp_ok :: "store \<Rightarrow> mlp \<Rightarrow> nat \<Rightarrow> bool" where
  "mlp_ok \<sigma> m F =
     (conv1d_ok \<sigma> (c_fc m) F \<and> nf (c_fc m) = 4 * F
      \<and> conv1d_ok \<sigma> (mlp_c_proj m) (4 * F) \<and> nf (mlp_c_proj m) = F)"

definition block_ok :: "store \<Rightarrow> block \<Rightarrow> nat \<Rightarrow> nat \<Rightarrow> bool" where
  "block_ok \<sigma> bl F S =
     (ln_ok \<sigma> (ln_1 bl) F \<and> attention_ok \<sigma> (attn bl) F S
      \<and> ln_ok \<sigma> (ln_2 bl) F \<and> mlp_ok \<sigma> (mlp bl) F)"

definition block_at :: "block \<Rightarrow> nat \<Rightarrow> bool" where
  "block_at bl a0 =
     (ln_weight (ln_1 bl) = a0 \<and> ln_bias (ln_1 bl) = a0 + 1
      \<and> attn_bias (attn bl) = a0 + 2
      \<and> weight (c_attn (attn bl)) = a0 + 3 \<and> bias (c_attn (attn bl)) = a0 + 4
      \<and> weight (c_proj (attn bl)) = a0 + 5 \<and> bias (c_proj (attn bl)) = a0 + 6
      \<and> ln_weight (ln_2 bl) = a0 + 7 \<and> ln_bias (ln_2 bl) = a0 + 8
      \<and> weight (c_fc (mlp bl)) = a0 + 9 \<and> bias (c_fc (mlp bl)) = a0 + 10
      \<and> weight (mlp_c_proj (mlp bl)) = a0 + 11 \<and> bias (mlp_c_proj (mlp bl)) = a0 + 12)"

text \<open>
  The stack as the specification words it: the blocks run in order, each on the output of
  the one before and on its own cache entry, and the updated caches are collected in
  order.
\<close>

fun thread_blocks ::
  "store \<Rightarrow> block list \<Rightarrow> t5 option list \<Rightarrow> t3 \<Rightarrow> error + (t3 \<times> t5 list)" where
  "thread_blocks \<sigma> (bl # bls) (c # cs) x =
     ebind (Block_forward \<sigma> bl x c) (\<lambda>(x', present).
     ebind (thread_blocks \<sigma> bls cs x') (\<lambda>(y, ps).
     Inr (y, present # ps)))"
| "thread_blocks \<sigma> bls cs x = Inr (x, [])"

section \<open>Concrete inputs\<close>

text \<open>An empty store: nothing allocated, every sample of the stream zero.\<close>

definition store0 :: store where
  "store0 = \<lparr> vecs = (\<lambda>a. zeros1 0), mats = (\<lambda>a. \<lparr> d20 = 0, d21 = 0, el2 = (\<lambda>i j. 0) \<rparr>),
               bufs = (\<lambda>a. tril_ones 0), fresh = 0, rnd = (\<lambda>k. 0) \<rparr>"

text \<open>
  A store and an attention module for \<open>F\<close> features, one head and maximum length
  \<open>S\<close>: the projection to query, key and value has weight 1 on the query and value
  columns and -1 on the key columns, the output projection has weight 1, all biases are 0.
\<close>

definition ex_store :: "nat \<Rightarrow> nat \<Rightarrow> store" where
  "ex_store F S =
     \<lparr> vecs = (\<lambda>a. if a = 0 then zeros1 (3 * F) else zeros1 F),
       mats = (\<lambda>a. if a = 0
                    then \<lparr> d20 = F, d21 = 3 * F,
                           el2 = (\<lambda>i j. if F \<le> j \<and> j < 2 * F then - 1 else 1) \<rparr>
                    else \<lparr> d20 = F, d21 = F, el2 = (\<lambda>i j. 1) \<rparr>),
       bufs = (\<lambda>a. tril_ones S), fresh = 2, rnd = (\<lambda>k. 0) \<rparr>"

definition ex_attn :: "nat \<Rightarrow> attention" where
  "ex_attn F =
     \<lparr> attn_bias = 0, n_head = 1, split_size = F, attn_scale = True,
       c_attn = \<lparr> nf = 3 * F, weight = 0, bias = 0 \<rparr>,
       c_proj = \<lparr> nf = F, weight = 1, bias = 1 \<rparr> \<rparr>"

definition ex_q :: t4 where
  "ex_q = \<lparr> d40 = 1, d41 = 1, d42 = 2, d43 = 1, el4 = (\<lambda>b g i d. 1) \<rparr>"

definition ex_k :: t4 where
  "ex_k = \<lparr> d40 = 1, d41 = 1, d42 = 1, d43 = 2, el4 = (\<lambda>b g d j. 1) \<rparr>"

text \<open>A one-token input of all ones.\<close>

definition ex_x1 :: "nat \<Rightarrow> t3" where
  "ex_x1 F = \<lparr> d30 = 1, d31 = 1, d32 = F, el3 = (\<lambda>b t k. 1) \<rparr>"

text \<open>A three-token input of all ones and a two-token input with a large first entry.\<close>

definition ex_x3 :: t3 where
  "ex_x3 = \<lparr> d30 = 1, d31 = 3, d32 = 1, el3 = (\<lambda>b t k. 1) \<rparr>"

definition ex_xa :: t3 where
  "ex_xa = \<lparr> d30 = 1, d31 = 2, d32 = 1, el3 = (\<lambda>b t k. if t = 0 then 200000 else 0) \<rparr>"




text \<open>A block for one feature, one head and maximum length 2, built in the empty store.\<close>

definition ex_block_init :: "error + (block \<times> store)" where
  "ex_block_init = Block_init 2 1 1 (1 / 10 ^ 5) (Some True) store0"

text \<open>A stack of two layers that run the given block, with the block's first normalisation
  as the final one.\<close>

definition ex_stack :: "block \<Rightarrow> gpt2" where
  "ex_stack bl = \<lparr> nb_layer = 2, h_blocks = [bl, bl], ln_f = ln_1 bl \<rparr>"

text \<open>
  A normalisation over two features with scale 2, shift 1 and epsilon 3, and a one-token
  input with the features 1 and 3.
\<close>

definition ex_ln_store :: store where
  "ex_ln_store =
     store0 \<lparr> vecs := (\<lambda>a. if a = 0 then \<lparr> d10 = 2, el1 = (\<lambda>k. 2) \<rparr>
                           else \<lparr> d10 = 2, el1 = (\<lambda>k. 1) \<rparr>), fresh := 2 \<rparr>"

definition ex_ln :: layernorm where
  "ex_ln = \<lparr> ln_weight = 0, ln_bias = 1, variance_epsilon = 3 \<rparr>"

definition ex_x2 :: t3 where
  "ex_x2 = \<lparr> d30 = 1, d31 = 1, d32 = 2, el3 = (\<lambda>b t k. if k = 0 then 1 else 3) \<rparr>"

section \<open>Basic facts\<close>

lemma ebind_Inr [simp]: "ebind (Inr x) f = f x"
  by (simp add: ebind_def)

lemma ebind_Inl [simp]: "ebind (Inl e) f = Inl e"
  by (simp add: ebind_def)

lemma ebind_eq_Inr: "ebind m f = Inr y \<longleftrightarrow> (\<exists>x. m = Inr x \<and> f x = Inr y)"
  by (cases m) simp_all

lemma split_heads_dvd:
  assumes "0 < n_head a" "n_head a dvd d32 x"
  shows "split_heads a x k =
     Inr (let y = \<lparr> d40 = d30 x, d41 = d31 x, d42 = n_head a, d43 = d32 x div n_head a,
                     el4 = (\<lambda>b t g d. el3 x b t (g * (d32 x div n_head a) + d)) \<rparr>
          in if k then permute_0231 y else permute_0213 y)"
  using assms by (auto simp: split_heads_def view34_def Let_def)

section \<open>Construction of the attention module\<close>

text \<open>
  Claim C7.  The divisibility of the feature count by the head count is checked by the
  constructor itself: a zero head count raises at the remainder, a head count that does
  not divide the feature count fails the assertion, and otherwise construction succeeds
  and the head split of any tensor with that feature count succeeds in every later
  forward call, so that no such failure is left to the first forward call.
\<close>

theorem Attention_init_divisibility:
  "(nb_head = 0 \<longrightarrow> Attention_init feat_len seq_len nb_head sc \<sigma> = Inl ZeroDivisionError)
   \<and> (0 < nb_head \<and> feat_len mod nb_head \<noteq> 0
        \<longrightarrow> Attention_init feat_len seq_len nb_head sc \<sigma> = Inl AssertionError)
   \<and> (0 < nb_head \<and> feat_len mod nb_head = 0
        \<longrightarrow> (\<exists>a \<sigma>'. Attention_init feat_len seq_len nb_head sc \<sigma> = Inr (a, \<sigma>')
               \<and> n_head a = nb_head \<and> split_size a = feat_len
               \<and> (\<forall>x k. d32 x = feat_len \<longrightarrow> (\<exists>y. split_heads a x k = Inr y))))"
proof (intro conjI impI)
  assume "nb_head = 0"
  then show "Attention_init feat_len seq_len nb_head sc \<sigma> = Inl ZeroDivisionError"
    by (simp add: Attention_init_def)
next
  assume "0 < nb_head \<and> feat_len mod nb_head \<noteq> 0"
  then show "Attention_init feat_len seq_len nb_head sc \<sigma> = Inl AssertionError"
    by (simp add: Attention_init_def)
next
  assume h: "0 < nb_head \<and> feat_len mod nb_head = 0"
  obtain a \<sigma>' where r: "Attention_init feat_len seq_len nb_head sc \<sigma> = Inr (a, \<sigma>')"
    and a: "n_head a = nb_head" "split_size a = feat_len"
    using h by (simp add: Attention_init_def Let_def case_prod_beta)
  have "\<exists>y. split_heads a x k = Inr y" if "d32 x = feat_len" for x k
    using split_heads_dvd [of a x k] h a that by (simp add: mod_eq_0_iff_dvd)
  with r a show "\<exists>a \<sigma>'. Attention_init feat_len seq_len nb_head sc \<sigma> = Inr (a, \<sigma>')
               \<and> n_head a = nb_head \<and> split_size a = feat_len
               \<and> (\<forall>x k. d32 x = feat_len \<longrightarrow> (\<exists>y. split_heads a x k = Inr y))"
    by blast
qed

theorem Attention_init_divisibility_witness:
  "Attention_init 8 4 0 None store0 = Inl ZeroDivisionError
   \<and> Attention_init 8 4 3 None store0 = Inl AssertionError
   \<and> (\<exists>a \<sigma>'. Attention_init 8 4 2 None store0 = Inr (a, \<sigma>') \<and> n_head a = 2 \<and> split_size a = 8)"
  using Attention_init_divisibility [of 0 8 4 None store0]
        Attention_init_divisibility [of 3 8 4 None store0]
        Attention_init_divisibility [of 2 8 4 None store0]
  by auto

section \<open>Explicit results of the tensor operations\<close>

lemma bc_ok_refl [simp]: "bc_ok n n" by (simp add: bc_ok_def)

lemma bc_ok_1 [simp]: "bc_ok n (Suc 0)" "bc_ok (Suc 0) n" by (simp_all add: bc_ok_def)

lemma bc_same [simp]: "bc n n = n" by (simp add: bc_def)

lemma bc_1 [simp]: "bc n (Suc 0) = n" "bc (Suc 0) n = n" by (simp_all add: bc_def)

lemma bix_lt [simp]: "i < m \<Longrightarrow> bix m i = i" by (auto simp: bix_def)

lemma bix_1 [simp]: "bix (Suc 0) i = 0" by (simp add: bix_def)

lemma Conv1D_forward_ok:
  assumes "conv1d_ok \<sigma> c nx" "d32 x = nx" "0 < nx"
  shows "Conv1D_forward \<sigma> c x =
     Inr \<lparr> d30 = d30 x, d31 = d31 x, d32 = nf c,
           el3 = addmm_at (vecs \<sigma> (bias c)) x (mats \<sigma> (weight c)) \<rparr>"
  using assms by (simp add: Conv1D_forward_def conv1d_ok_def Let_def)

lemma split3_ok:
  assumes "d32 x = 3 * n" "0 < n"
  shows "split3 x n = Inr (chunk3 x 0 n, chunk3 x n n, chunk3 x (2 * n) n)"
proof -
  have "(3 * n + n - 1) div n = 3"
    using assms by (intro div_nat_eqI) simp_all
  then show ?thesis using assms by (simp add: split3_def)
qed

lemma Attention_qkv_ok:
  assumes ok: "attention_ok \<sigma> a F S" and x: "d32 x = F" and F: "0 < F"
  shows "Attention_qkv \<sigma> a x =
     Inr (\<lparr> d40 = d30 x, d41 = n_head a, d42 = d31 x, d43 = F div n_head a,
             el4 = (\<lambda>b g t d. head_proj \<sigma> a x 0 b g t d) \<rparr>,
          \<lparr> d40 = d30 x, d41 = n_head a, d42 = F div n_head a, d43 = d31 x,
             el4 = (\<lambda>b g d t. head_proj \<sigma> a x F b g t d) \<rparr>,
          \<lparr> d40 = d30 x, d41 = n_head a, d42 = d31 x, d43 = F div n_head a,
             el4 = (\<lambda>b g t d. head_proj \<sigma> a x (2 * F) b g t d) \<rparr>)"
proof -
  have c: "conv1d_ok \<sigma> (c_attn a) F" "nf (c_attn a) = 3 * F" "split_size a = F"
       "0 < n_head a" "n_head a dvd F"
    using ok by (simp_all add: attention_ok_def)
  show ?thesis
    using c x F
    by (simp add: Attention_qkv_def Conv1D_forward_ok [OF c(1) x F] split3_ok
        split_heads_dvd chunk3_def permute_0213_def permute_0231_def head_proj_def Let_def)
qed

lemma py_clamp_nat [simp]: "py_clamp (int n) m = min n m"
  by (simp add: py_clamp_def)

lemma py_clamp_diff [simp]: "nd \<le> ns \<Longrightarrow> py_clamp (int ns - int nd) m = min (ns - nd) m"
  by (simp add: py_clamp_def nat_diff_distrib')

lemma Attention_mask_ok:
  assumes "bufs \<sigma> (attn_bias a) = tril_ones S" "d42 w \<le> d43 w" "d43 w \<le> S"
  shows "Attention_mask \<sigma> a w =
     \<lparr> d40 = 1, d41 = 1, d42 = d42 w, d43 = d43 w,
       el4 = (\<lambda>b g i j. tril_at (d43 w - d42 w + i) j) \<rparr>"
proof -
  have "min (d43 w - d42 w) S = d43 w - d42 w" "min (d43 w) S = d43 w"
       "d43 w - (d43 w - d42 w) = d42 w"
    using assms(2,3) by simp_all
  then show ?thesis
    using assms
    by (simp add: Attention_mask_def slice_rows_cols_def tril_ones_def Let_def tril_at_def)
qed

lemma Attention_masked_ok:
  assumes "bufs \<sigma> (attn_bias a) = tril_ones S" "d42 w \<le> d43 w" "d43 w \<le> S"
  shows "\<exists>m. Attention_masked \<sigma> a w = Inr m
     \<and> d40 m = d40 w \<and> d41 m = d41 w \<and> d42 m = d42 w \<and> d43 m = d43 w
     \<and> (\<forall>b<d40 w. \<forall>g<d41 w. \<forall>i<d42 w. \<forall>j<d43 w.
          el4 m b g i j = el4 w b g i j * tril_at (d43 w - d42 w + i) j
                          - 10 ^ 10 * (1 - tril_at (d43 w - d42 w + i) j))"
  using assms
  by (simp add: Attention_masked_def Attention_mask_ok [OF assms] binop4_def map4_def Let_def)

lemma with_past_ok:
  assumes "past_ok lp (d40 key) (d41 key) (d42 key)"
    "d40 val = d40 key" "d41 val = d41 key" "d43 val = d42 key"
  shows "with_past lp key val =
     Inr (\<lparr> d40 = d40 key, d41 = d41 key, d42 = d42 key, d43 = past_len lp + d43 key,
             el4 = (\<lambda>b g d j. if j < past_len lp then past_el lp 0 b g j d
                               else el4 key b g d (j - past_len lp)) \<rparr>,
          \<lparr> d40 = d40 key, d41 = d41 key, d42 = past_len lp + d42 val, d43 = d42 key,
             el4 = (\<lambda>b g i d. if i < past_len lp then past_el lp 1 b g i d
                               else el4 val b g (i - past_len lp) d) \<rparr>)"
proof (cases lp)
  case None
  then show ?thesis using assms by (simp add: with_past_def past_len_def)
next
  case (Some p)
  show ?thesis
    using assms unfolding Some
    by (simp add: with_past_def past_len_def past_el_def past_ok_def select5_def
        transpose4_def cat_last_def cat_dim2_def Let_def cong: if_cong)
qed

lemma Attention_scores_ok:
  assumes "d40 k = d40 q" "d41 k = d41 q" "d42 k = d43 q"
  shows "\<exists>w. Attention_scores a q k v = Inr w
     \<and> d40 w = d40 q \<and> d41 w = d41 q \<and> d42 w = d42 q \<and> d43 w = d43 k
     \<and> (\<forall>b<d40 q. \<forall>g<d41 q. \<forall>i j. el4 w b g i j = score4 a q k v b g i j)"
  using assms
  by (simp add: Attention_scores_def matmul4_def map4_def score4_def Let_def)

lemma softmax4_prob4:
  assumes d: "d43 mm = d43 k"
    and lg: "\<forall>j<d43 k. el4 mm b g i j = logit4 a q k v b g i j"
    and j: "j < d43 k"
  shows "el4 (softmax4 mm) b g i j = prob4 a q k v b g i j"
proof -
  have "(\<lambda>c. el4 mm b g i c) ` {..< d43 mm} = (\<lambda>c. logit4 a q k v b g i c) ` {..< d43 k}"
    unfolding d by (rule image_cong [OF refl]) (simp add: lg)
  then have m: "row_max mm b g i = logit_max a q k v b g i"
    by (simp add: row_max_def logit_max_def)
  show ?thesis
    using lg j by (simp add: softmax4_def prob4_def m d)
qed

lemma Attention_attn_ok:
  assumes m: "bufs \<sigma> (attn_bias a) = tril_ones S"
    and k: "d40 k = d40 q" "d41 k = d41 q" "d42 k = d43 q"
    and v: "d40 v = d40 q" "d41 v = d41 q" "d42 v = d43 k"
    and le: "d42 q \<le> d43 k" "d43 k \<le> S"
  shows "\<exists>out. Attention_attn \<sigma> a q k v = Inr out
     \<and> d40 out = d40 q \<and> d41 out = d41 q \<and> d42 out = d42 q \<and> d43 out = d43 v
     \<and> (\<forall>b<d40 q. \<forall>g<d41 q. \<forall>i<d42 q. \<forall>d. el4 out b g i d = attn4 a q k v b g i d)"
proof -
  obtain w where w: "Attention_scores a q k v = Inr w"
    "d40 w = d40 q" "d41 w = d41 q" "d42 w = d42 q" "d43 w = d43 k"
    and wv: "\<And>b g i j. b < d40 q \<Longrightarrow> g < d41 q \<Longrightarrow> el4 w b g i j = score4 a q k v b g i j"
    using Attention_scores_ok [OF k, of a v] by blast
  have le': "d42 w \<le> d43 w" "d43 w \<le> S" using le w by simp_all
  obtain mm where mm: "Attention_masked \<sigma> a w = Inr mm"
    "d40 mm = d40 q" "d41 mm = d41 q" "d42 mm = d42 q" "d43 mm = d43 k"
    and mv: "\<And>b g i j. b < d40 q \<Longrightarrow> g < d41 q \<Longrightarrow> i < d42 q \<Longrightarrow> j < d43 k \<Longrightarrow>
       el4 mm b g i j = el4 w b g i j * tril_at (d43 w - d42 w + i) j
                          - 10 ^ 10 * (1 - tril_at (d43 w - d42 w + i) j)"
    using Attention_masked_ok [OF m le'] w by auto
  have lg: "el4 mm b g i j = logit4 a q k v b g i j"
    if "b < d40 q" "g < d41 q" "i < d42 q" "j < d43 k" for b g i j
    using mv [OF that] wv [OF that(1,2)] w by (simp add: logit4_def)
  have "Attention_attn \<sigma> a q k v = matmul4 (softmax4 mm) v"
    by (simp add: Attention_attn_def w mm)
  moreover have "matmul4 (softmax4 mm) v =
     Inr \<lparr> d40 = d40 q, d41 = d41 q, d42 = d42 q, d43 = d43 v,
           el4 = (\<lambda>b g i j. \<Sum>d < d43 k.
                    el4 (softmax4 mm) (bix (d40 q) b) (bix (d41 q) g) i d
                  * el4 v (bix (d40 q) b) (bix (d41 q) g) d j) \<rparr>"
    using mm v by (simp add: matmul4_def softmax4_def)
  moreover have "(\<Sum>d < d43 k. el4 (softmax4 mm) (bix (d40 q) b) (bix (d41 q) g) i d
                  * el4 v (bix (d40 q) b) (bix (d41 q) g) d j) = attn4 a q k v b g i j"
    if "b < d40 q" "g < d41 q" "i < d42 q" for b g i j
  proof -
    have "el4 (softmax4 mm) b g i d = prob4 a q k v b g i d" if "d < d43 k" for d
      using lg \<open>b < d40 q\<close> \<open>g < d41 q\<close> \<open>i < d42 q\<close> that mm
      by (intro softmax4_prob4) simp_all
    then show ?thesis using that by (simp add: attn4_def)
  qed
  ultimately show ?thesis by simp
qed

lemma Attention_forward_ok:
  assumes ok: "attention_ok \<sigma> a F S" and x: "d32 x = F" and F: "0 < F"
    and p: "past_ok lp (d30 x) (n_head a) (F div n_head a)"
    and le: "past_len lp + d31 x \<le> S"
  shows "\<exists>q k1 v1 key val y pr.
     Attention_qkv \<sigma> a x = Inr (q, k1, v1) \<and> with_past lp k1 v1 = Inr (key, val)
     \<and> Attention_forward \<sigma> a x lp = Inr (y, pr)
     \<and> d30 y = d30 x \<and> d31 y = d31 x \<and> d32 y = F
     \<and> d50 pr = 2 \<and> d51 pr = d30 x \<and> d52 pr = n_head a
     \<and> d53 pr = past_len lp + d31 x \<and> d54 pr = F div n_head a
     \<and> el5 pr 0 = el4 (transpose4 key) \<and> el5 pr 1 = el4 val
     \<and> (\<forall>b<d30 x. \<forall>t<d31 x. \<forall>f.
          el3 y b t f =
            el1 (vecs \<sigma> (bias (c_proj a))) (bix (d10 (vecs \<sigma> (bias (c_proj a)))) f)
            + (\<Sum>c<F. attn4 a q key val b (c div (F div n_head a)) t (c mod (F div n_head a))
                       * el2 (mats \<sigma> (weight (c_proj a))) c f))"
proof -
  let ?H = "n_head a" and ?D = "F div n_head a"
  have a: "0 < ?H" "?H dvd F" "bufs \<sigma> (attn_bias a) = tril_ones S"
      "conv1d_ok \<sigma> (c_proj a) F" "nf (c_proj a) = F"
    using ok by (simp_all add: attention_ok_def)
  have HD: "?H * ?D = F" using a by simp
  have D: "0 < ?D" using HD F by (metis mult_0_right neq0_conv)
  obtain q k1 v1 where qkv: "Attention_qkv \<sigma> a x = Inr (q, k1, v1)"
    and q: "d40 q = d30 x" "d41 q = ?H" "d42 q = d31 x" "d43 q = ?D"
    and k1: "d40 k1 = d30 x" "d41 k1 = ?H" "d42 k1 = ?D" "d43 k1 = d31 x"
    and v1: "d40 v1 = d30 x" "d41 v1 = ?H" "d42 v1 = d31 x" "d43 v1 = ?D"
    using Attention_qkv_ok [OF ok x F] by simp
  obtain key val where wp: "with_past lp k1 v1 = Inr (key, val)"
    and key: "d40 key = d30 x" "d41 key = ?H" "d42 key = ?D" "d43 key = past_len lp + d31 x"
    and val: "d40 val = d30 x" "d41 val = ?H" "d42 val = past_len lp + d31 x" "d43 val = ?D"
    using with_past_ok [of lp k1 v1] p k1 v1 by simp
  obtain pr where pr: "stack2 (transpose4 key) val = Inr pr"
    "d50 pr = 2" "d51 pr = d30 x" "d52 pr = ?H" "d53 pr = past_len lp + d31 x" "d54 pr = ?D"
    "el5 pr 0 = el4 (transpose4 key)" "el5 pr 1 = el4 val"
    using key val by (simp add: stack2_def transpose4_def)
  obtain out where out: "Attention_attn \<sigma> a q key val = Inr out"
    "d40 out = d30 x" "d41 out = ?H" "d42 out = d31 x" "d43 out = ?D"
    and ov: "\<And>b g i d. b < d30 x \<Longrightarrow> g < ?H \<Longrightarrow> i < d31 x \<Longrightarrow>
               el4 out b g i d = attn4 a q key val b g i d"
    using Attention_attn_ok [of \<sigma> a S key q val] a(3) q key val le by auto
  have m: "d30 (merge_heads out) = d30 x" "d31 (merge_heads out) = d31 x"
      "d32 (merge_heads out) = F"
      "el3 (merge_heads out) = (\<lambda>b t c. el4 out b (c div ?D) t (c mod ?D))"
    using out HD by (simp_all add: merge_heads_def view43_def permute_0213_def)
  let ?y = "\<lparr> d30 = d30 x, d31 = d31 x, d32 = F,
       el3 = addmm_at (vecs \<sigma> (bias (c_proj a))) (merge_heads out) (mats \<sigma> (weight (c_proj a))) \<rparr>"
  have y: "Conv1D_forward \<sigma> (c_proj a) (merge_heads out) = Inr ?y"
    using Conv1D_forward_ok [OF a(4) m(3) F] m a(5) by simp
  have fw: "Attention_forward \<sigma> a x lp = Inr (?y, pr)"
    by (simp add: Attention_forward_def qkv wp pr out y)
  have yv: "el3 ?y b t f =
            el1 (vecs \<sigma> (bias (c_proj a))) (bix (d10 (vecs \<sigma> (bias (c_proj a)))) f)
            + (\<Sum>c<F. attn4 a q key val b (c div ?D) t (c mod ?D)
                       * el2 (mats \<sigma> (weight (c_proj a))) c f)"
    if "b < d30 x" "t < d31 x" for b t f
  proof -
    have "c div ?D < ?H" if "c < F" for c
      using that HD D by (metis less_mult_imp_div_less)
    then show ?thesis
      using that ov by (simp add: addmm_at_def m)
  qed
  show ?thesis
    using qkv wp fw pr(2-8) yv by (intro exI [of _ q] exI [of _ k1] exI [of _ v1]
        exI [of _ key] exI [of _ val] exI [of _ ?y] exI [of _ pr]) simp
qed

lemma ex_attn_ok: "attention_ok (ex_store F S) (ex_attn F) F S"
  by (simp add: attention_ok_def conv1d_ok_def ex_store_def ex_attn_def zeros1_def)


section \<open>The mask-bias rule\<close>

text \<open>
  Claim C3.  With \<open>nd\<close> the query length and \<open>ns\<close> the total key length,
  \<open>nd \<le> ns \<le> S\<close>, the sliced mask has rows \<open>ns - nd\<close> to \<open>ns - 1\<close> and columns
  \<open>0\<close> to \<open>ns - 1\<close> of the lower-triangular matrix, the masked scores are
  \<open>w * b - 1e10 * (1 - b)\<close>, and the softmax is taken of the masked scores.
\<close>

theorem mask_bias_rule:
  assumes "bufs \<sigma> (attn_bias a) = tril_ones S"
    and "d40 k = d40 q" "d41 k = d41 q" "d42 k = d43 q"
    and "d42 q \<le> d43 k" "d43 k \<le> S"
  shows "\<exists>w m. Attention_scores a q k v = Inr w \<and> d42 w = d42 q \<and> d43 w = d43 k
     \<and> d40 (Attention_mask \<sigma> a w) = 1 \<and> d41 (Attention_mask \<sigma> a w) = 1
     \<and> d42 (Attention_mask \<sigma> a w) = d42 w \<and> d43 (Attention_mask \<sigma> a w) = d43 w
     \<and> (\<forall>i<d42 w. \<forall>j<d43 w.
           el4 (Attention_mask \<sigma> a w) 0 0 i j = el4 (tril_ones S) 0 0 (d43 w - d42 w + i) j)
     \<and> Attention_masked \<sigma> a w = Inr m
     \<and> (\<forall>b<d40 w. \<forall>g<d41 w. \<forall>i<d42 w. \<forall>j<d43 w.
           el4 m b g i j = el4 w b g i j * el4 (Attention_mask \<sigma> a w) 0 0 i j
                           - 10 ^ 10 * (1 - el4 (Attention_mask \<sigma> a w) 0 0 i j))
     \<and> Attention_attn \<sigma> a q k v = matmul4 (softmax4 m) v"
proof -
  obtain w where w: "Attention_scores a q k v = Inr w"
    "d40 w = d40 q" "d41 w = d41 q" "d42 w = d42 q" "d43 w = d43 k"
    using Attention_scores_ok [OF assms(2-4), of a v] by blast
  have le: "d42 w \<le> d43 w" "d43 w \<le> S" using assms(5,6) w by simp_all
  note mk = Attention_mask_ok [OF assms(1) le]
  obtain m where m: "Attention_masked \<sigma> a w = Inr m"
    and mv: "\<forall>b<d40 w. \<forall>g<d41 w. \<forall>i<d42 w. \<forall>j<d43 w.
       el4 m b g i j = el4 w b g i j * tril_at (d43 w - d42 w + i) j
                          - 10 ^ 10 * (1 - tril_at (d43 w - d42 w + i) j)"
    using Attention_masked_ok [OF assms(1) le] by blast
  have "Attention_attn \<sigma> a q k v = matmul4 (softmax4 m) v"
    by (simp add: Attention_attn_def w m)
  then show ?thesis
    using w m mv by (intro exI [of _ w] exI [of _ m]) (simp add: mk tril_ones_def tril_at_def)
qed

theorem mask_bias_rule_witness:
  "\<exists>w m. Attention_scores (ex_attn 1) ex_q ex_k ex_q = Inr w \<and> d42 w = 2 \<and> d43 w = 2
     \<and> el4 (Attention_mask (ex_store 1 2) (ex_attn 1) w) 0 0 0 1 = 0
     \<and> Attention_masked (ex_store 1 2) (ex_attn 1) w = Inr m
     \<and> el4 m 0 0 0 1 = - (10 ^ 10)
     \<and> el4 m 0 0 1 1 = el4 w 0 0 1 1"
proof -
  have b: "bufs (ex_store 1 2) (attn_bias (ex_attn 1)) = tril_ones 2"
    by (simp add: ex_store_def)
  have d: "d40 ex_k = d40 ex_q" "d41 ex_k = d41 ex_q" "d42 ex_k = d43 ex_q"
    "d42 ex_q \<le> d43 ex_k" "d43 ex_k \<le> 2"
    by (simp_all add: ex_q_def ex_k_def)
  obtain w m where w: "Attention_scores (ex_attn 1) ex_q ex_k ex_q = Inr w"
    "d42 w = d42 ex_q" "d43 w = d43 ex_k" "d40 w = d40 ex_q" "d41 w = d41 ex_q"
    and mk: "\<forall>i<d42 w. \<forall>j<d43 w.
           el4 (Attention_mask (ex_store 1 2) (ex_attn 1) w) 0 0 i j
           = el4 (tril_ones 2) 0 0 (d43 w - d42 w + i) j"
    and m: "Attention_masked (ex_store 1 2) (ex_attn 1) w = Inr m"
    and mv: "\<forall>b<d40 w. \<forall>g<d41 w. \<forall>i<d42 w. \<forall>j<d43 w.
           el4 m b g i j = el4 w b g i j * el4 (Attention_mask (ex_store 1 2) (ex_attn 1) w) 0 0 i j
                           - 10 ^ 10 * (1 - el4 (Attention_mask (ex_store 1 2) (ex_attn 1) w) 0 0 i j)"
    using mask_bias_rule [OF b d, of ex_q] Attention_scores_ok [OF d(1-3), of "ex_attn 1" ex_q]
    by auto
  have dw: "d40 w = 1" "d41 w = 1" "d42 w = 2" "d43 w = 2"
    using w by (simp_all add: ex_q_def ex_k_def)
  have k01: "el4 (Attention_mask (ex_store 1 2) (ex_attn 1) w) 0 0 0 1 = 0"
    using mk [rule_format, of 0 1] dw by (simp add: tril_ones_def)
  have k11: "el4 (Attention_mask (ex_store 1 2) (ex_attn 1) w) 0 0 1 1 = 1"
    using mk [rule_format, of 1 1] dw by (simp add: tril_ones_def)
  have "el4 m 0 0 0 1 = - (10 ^ 10)"
    using mv [rule_format, of 0 0 0 1] dw k01 by simp
  moreover have "el4 m 0 0 1 1 = el4 w 0 0 1 1"
    using mv [rule_format, of 0 0 1 1] dw k11 by simp
  ultimately show ?thesis
    using w(1) dw m k01 by blast
qed

section \<open>The returned cache\<close>

lemma Attention_forward_cache:
  assumes ok: "attention_ok \<sigma> a F S" and x: "d32 x = F" and F: "0 < F"
    and p: "past_ok lp (d30 x) (n_head a) (F div n_head a)"
    and le: "past_len lp + d31 x \<le> S"
  shows "\<exists>y pr.
     Attention_forward \<sigma> a x lp = Inr (y, pr)
     \<and> d50 pr = 2 \<and> d51 pr = d30 x \<and> d52 pr = n_head a
     \<and> d53 pr = past_len lp + d31 x \<and> d54 pr = F div n_head a
     \<and> (\<forall>b g i d. el5 pr 0 b g i d =
           (if i < past_len lp then past_el lp 0 b g i d
            else head_proj \<sigma> a x F b g (i - past_len lp) d))
     \<and> (\<forall>b g i d. el5 pr 1 b g i d =
           (if i < past_len lp then past_el lp 1 b g i d
            else head_proj \<sigma> a x (2 * F) b g (i - past_len lp) d))"
proof -
  obtain q k1 v1 key val y pr where
    r: "Attention_qkv \<sigma> a x = Inr (q, k1, v1)" "with_past lp k1 v1 = Inr (key, val)"
       "Attention_forward \<sigma> a x lp = Inr (y, pr)"
    and d: "d50 pr = 2" "d51 pr = d30 x" "d52 pr = n_head a"
       "d53 pr = past_len lp + d31 x" "d54 pr = F div n_head a"
    and e: "el5 pr 0 = el4 (transpose4 key)" "el5 pr 1 = el4 val"
    using Attention_forward_ok [OF ok x F p le] by blast
  have dk: "d40 k1 = d30 x" "d41 k1 = n_head a" "d42 k1 = F div n_head a"
       "d40 v1 = d30 x" "d41 v1 = n_head a" "d43 v1 = F div n_head a"
       "el4 k1 = (\<lambda>b g d t. head_proj \<sigma> a x F b g t d)"
       "el4 v1 = (\<lambda>b g t d. head_proj \<sigma> a x (2 * F) b g t d)"
    using Attention_qkv_ok [OF ok x F] r(1) by auto
  have kv: "el4 key = (\<lambda>b g d j. if j < past_len lp then past_el lp 0 b g j d
                               else el4 k1 b g d (j - past_len lp))"
       "el4 val = (\<lambda>b g i d. if i < past_len lp then past_el lp 1 b g i d
                               else el4 v1 b g (i - past_len lp) d)"
    using with_past_ok [of lp k1 v1] p dk(1-6) r(2) by auto
  show ?thesis
    using r(3) d e by (intro exI [of _ y] exI [of _ pr]) (simp add: kv dk(7,8) transpose4_def)
qed

text \<open>
  Claim C4, as the code has it.  For an input (B, T, F) and a cache of prefix length P,
  given as the stack (2, B, H, P, F/H), the returned cache is the stack
  (2, B, H, P + T, F/H): entry 0 is the new key transposed, so that its rows are positions
  like those of the value in entry 1; positions below P hold the cached entries and the
  positions from P on hold the key and value of the current tokens.  Fed as the cache of
  the next call, it is the prefix of the cache that call returns.
\<close>

theorem cache_orientation:
  assumes ok: "attention_ok \<sigma> a F S" and x: "d32 x = F" and F: "0 < F"
    and p: "past_ok lp (d30 x) (n_head a) (F div n_head a)"
    and x2: "d30 x2 = d30 x" "d32 x2 = F"
    and le: "past_len lp + d31 x + d31 x2 \<le> S"
  shows "\<exists>q k1 v1 y pr y2 pr2.
     Attention_qkv \<sigma> a x = Inr (q, k1, v1) \<and> Attention_forward \<sigma> a x lp = Inr (y, pr)
     \<and> d50 pr = 2 \<and> d51 pr = d30 x \<and> d52 pr = n_head a
     \<and> d53 pr = past_len lp + d31 x \<and> d54 pr = F div n_head a
     \<and> (\<forall>b g i d. el5 pr 0 b g i d =
           (if i < past_len lp then past_el lp 0 b g i d else el4 k1 b g d (i - past_len lp)))
     \<and> (\<forall>b g i d. el5 pr 1 b g i d =
           (if i < past_len lp then past_el lp 1 b g i d else el4 v1 b g (i - past_len lp) d))
     \<and> Attention_forward \<sigma> a x2 (Some pr) = Inr (y2, pr2)
     \<and> d53 pr2 = past_len lp + d31 x + d31 x2
     \<and> (\<forall>b g i d. i < past_len lp + d31 x \<longrightarrow>
           el5 pr2 0 b g i d = el5 pr 0 b g i d \<and> el5 pr2 1 b g i d = el5 pr 1 b g i d)"
proof -
  have le1: "past_len lp + d31 x \<le> S" using le by simp
  obtain q k1 v1 where qkv: "Attention_qkv \<sigma> a x = Inr (q, k1, v1)"
    and kv: "el4 k1 = (\<lambda>b g d t. head_proj \<sigma> a x F b g t d)"
            "el4 v1 = (\<lambda>b g t d. head_proj \<sigma> a x (2 * F) b g t d)"
    using Attention_qkv_ok [OF ok x F] by simp
  obtain y pr where
    r: "Attention_forward \<sigma> a x lp = Inr (y, pr)"
    and d: "d50 pr = 2" "d51 pr = d30 x" "d52 pr = n_head a"
       "d53 pr = past_len lp + d31 x" "d54 pr = F div n_head a"
    and e: "\<And>b g i d. el5 pr 0 b g i d =
           (if i < past_len lp then past_el lp 0 b g i d
            else head_proj \<sigma> a x F b g (i - past_len lp) d)"
       "\<And>b g i d. el5 pr 1 b g i d =
           (if i < past_len lp then past_el lp 1 b g i d
            else head_proj \<sigma> a x (2 * F) b g (i - past_len lp) d)"
    using Attention_forward_cache [OF ok x F p le1] by blast
  have p2: "past_ok (Some pr) (d30 x2) (n_head a) (F div n_head a)"
    using d x2 by (simp add: past_ok_def)
  have l2: "past_len (Some pr) = past_len lp + d31 x"
    using d by (simp add: past_len_def)
  have le2: "past_len (Some pr) + d31 x2 \<le> S" using le l2 by simp
  obtain y2 pr2 where
    r2: "Attention_forward \<sigma> a x2 (Some pr) = Inr (y2, pr2)"
    and d2: "d53 pr2 = past_len (Some pr) + d31 x2"
    and e2: "\<And>b g i d. el5 pr2 0 b g i d =
           (if i < past_len (Some pr) then past_el (Some pr) 0 b g i d
            else head_proj \<sigma> a x2 F b g (i - past_len (Some pr)) d)"
       "\<And>b g i d. el5 pr2 1 b g i d =
           (if i < past_len (Some pr) then past_el (Some pr) 1 b g i d
            else head_proj \<sigma> a x2 (2 * F) b g (i - past_len (Some pr)) d)"
    using Attention_forward_cache [OF ok x2(2) F p2 le2] by blast
  have "el5 pr2 0 b g i d = el5 pr 0 b g i d \<and> el5 pr2 1 b g i d = el5 pr 1 b g i d"
    if "i < past_len lp + d31 x" for b g i d
    using e2 that l2 by (simp add: past_el_def)
  then show ?thesis
    using qkv r d e r2 d2 l2
    by (intro exI [of _ q] exI [of _ k1] exI [of _ v1] exI [of _ y] exI [of _ pr]
        exI [of _ y2] exI [of _ pr2]) (simp add: kv)
qed

lemma past_ok_None [simp]: "past_ok None B H D"
  by (simp add: past_ok_def)

lemma past_len_None [simp]: "past_len None = 0"
  by (simp add: past_len_def)

theorem cache_orientation_witness:
  "\<exists>y pr y2 pr2.
     Attention_forward (ex_store 2 2) (ex_attn 2) (ex_x1 2) None = Inr (y, pr)
     \<and> d50 pr = 2 \<and> d51 pr = 1 \<and> d52 pr = 1 \<and> d53 pr = 1 \<and> d54 pr = 2
     \<and> Attention_forward (ex_store 2 2) (ex_attn 2) (ex_x1 2) (Some pr) = Inr (y2, pr2)
     \<and> d53 pr2 = 2
     \<and> el5 pr2 0 0 0 0 0 = el5 pr 0 0 0 0 0 \<and> el5 pr2 1 0 0 0 1 = el5 pr 1 0 0 0 1"
proof -
  have h: "d32 (ex_x1 2) = 2" "0 < (2::nat)"
    "past_ok None (d30 (ex_x1 2)) (n_head (ex_attn 2)) (2 div n_head (ex_attn 2))"
    "d30 (ex_x1 2) = d30 (ex_x1 2)" "past_len None + d31 (ex_x1 2) + d31 (ex_x1 2) \<le> 2"
    by (simp_all add: ex_x1_def)
  obtain y pr y2 pr2 where
    "Attention_forward (ex_store 2 2) (ex_attn 2) (ex_x1 2) None = Inr (y, pr)"
    "d50 pr = 2" "d51 pr = d30 (ex_x1 2)" "d52 pr = n_head (ex_attn 2)"
    "d53 pr = past_len None + d31 (ex_x1 2)" "d54 pr = 2 div n_head (ex_attn 2)"
    "Attention_forward (ex_store 2 2) (ex_attn 2) (ex_x1 2) (Some pr) = Inr (y2, pr2)"
    "d53 pr2 = past_len None + d31 (ex_x1 2) + d31 (ex_x1 2)"
    "\<forall>b g i d. i < past_len None + d31 (ex_x1 2) \<longrightarrow>
           el5 pr2 0 b g i d = el5 pr 0 b g i d \<and> el5 pr2 1 b g i d = el5 pr 1 b g i d"
    using cache_orientation [OF ex_attn_ok h(1,2,3,4,1,5)] by blast
  then show ?thesis
    by (intro exI [of _ y] exI [of _ pr] exI [of _ y2] exI [of _ pr2])
       (simp add: ex_x1_def ex_attn_def)
qed

text \<open>
  For one token, two features, one head and no cache the returned key has size
  (1, 1, 1, 2), positions before head features, and not (1, 1, 2, 1).
\<close>

theorem cache_orientation_counterexample:
  "returned_key_size (Attention_forward (ex_store 2 2) (ex_attn 2) (ex_x1 2) None)
     = Some (1, 1, 1, 2)
   \<and> returned_key_size (Attention_forward (ex_store 2 2) (ex_attn 2) (ex_x1 2) None)
     \<noteq> Some (1, 1, 2 div 1, 0 + 1)"
proof -
  have h: "d32 (ex_x1 2) = 2" "0 < (2::nat)"
    "past_ok None (d30 (ex_x1 2)) (n_head (ex_attn 2)) (2 div n_head (ex_attn 2))"
    "past_len None + d31 (ex_x1 2) \<le> 2"
    by (simp_all add: ex_x1_def)
  obtain y pr where
    "Attention_forward (ex_store 2 2) (ex_attn 2) (ex_x1 2) None = Inr (y, pr)"
    "d50 pr = 2" "d51 pr = d30 (ex_x1 2)" "d52 pr = n_head (ex_attn 2)"
    "d53 pr = past_len None + d31 (ex_x1 2)" "d54 pr = 2 div n_head (ex_attn 2)"
    using Attention_forward_cache [OF ex_attn_ok h] by blast
  then show ?thesis
    by (simp add: returned_key_size_def select5_def ex_x1_def ex_attn_def)
qed

section \<open>Sequences longer than the mask\<close>

lemma Attention_attn_too_long:
  assumes m: "bufs \<sigma> (attn_bias a) = tril_ones S"
    and k: "d40 k = d40 q" "d41 k = d41 q" "d42 k = d43 q"
    and v: "d42 v = d43 k"
    and le: "d42 q \<le> d43 k" "S < d43 k" "S \<noteq> 1"
  shows "Attention_attn \<sigma> a q k v = Inl RuntimeError"
proof -
  obtain w where w: "Attention_scores a q k v = Inr w"
    "d40 w = d40 q" "d41 w = d41 q" "d42 w = d42 q" "d43 w = d43 k"
    using Attention_scores_ok [OF k, of a v] by blast
  let ?b = "Attention_mask \<sigma> a w"
  have b: "d40 ?b = 1" "d41 ?b = 1" "d43 ?b = S"
    "d42 ?b = S - min (d43 k - d42 q) S"
    using m le w by (simp_all add: Attention_mask_def slice_rows_cols_def tril_ones_def Let_def)
  show ?thesis
  proof (cases "d43 k = 1")
    case False
    then have "\<not> bc_ok (d43 w) (d43 ?b)"
      using le w b by (simp add: bc_ok_def)
    then have "Attention_masked \<sigma> a w = Inl RuntimeError"
      by (simp add: Attention_masked_def binop4_def Let_def)
    then show ?thesis by (simp add: Attention_attn_def w)
  next
    case True
    then have S: "S = 0" using le by simp
    have "Attention_masked \<sigma> a w = Inl RuntimeError
      \<or> (\<exists>mm. Attention_masked \<sigma> a w = Inr mm \<and> d43 mm = 0)"
      using b S w True
      by (auto simp: Attention_masked_def binop4_def Let_def map4_def bc_def)
    then show ?thesis
      using v True by (auto simp: Attention_attn_def w matmul4_def softmax4_def)
  qed
qed

text \<open>
  Claim C8, as the code has it.  Slicing the mask never raises: the bounds of a slice are
  clamped to the mask.  When the total length exceeds the maximum length \<open>S\<close> and
  \<open>S\<close> is not 1, the clamped slice has \<open>S\<close> columns and cannot be broadcast
  against the scores, and the call fails with the runtime error of the tensor library
  (for an empty mask and total length 1, at the product of the weights with the values).
\<close>

theorem too_long_fails:
  assumes ok: "attention_ok \<sigma> a F S" and x: "d32 x = F" and F: "0 < F"
    and p: "past_ok lp (d30 x) (n_head a) (F div n_head a)"
    and long: "S < past_len lp + d31 x" and S: "S \<noteq> 1"
  shows "Attention_forward \<sigma> a x lp = Inl RuntimeError"
proof -
  let ?H = "n_head a" and ?D = "F div n_head a"
  have a: "bufs \<sigma> (attn_bias a) = tril_ones S"
    using ok by (simp add: attention_ok_def)
  obtain q k1 v1 where qkv: "Attention_qkv \<sigma> a x = Inr (q, k1, v1)"
    and q: "d40 q = d30 x" "d41 q = ?H" "d42 q = d31 x" "d43 q = ?D"
    and k1: "d40 k1 = d30 x" "d41 k1 = ?H" "d42 k1 = ?D" "d43 k1 = d31 x"
    and v1: "d40 v1 = d30 x" "d41 v1 = ?H" "d42 v1 = d31 x" "d43 v1 = ?D"
    using Attention_qkv_ok [OF ok x F] by simp
  obtain key val where wp: "with_past lp k1 v1 = Inr (key, val)"
    and key: "d40 key = d30 x" "d41 key = ?H" "d42 key = ?D" "d43 key = past_len lp + d31 x"
    and val: "d40 val = d30 x" "d41 val = ?H" "d42 val = past_len lp + d31 x" "d43 val = ?D"
    using with_past_ok [of lp k1 v1] p k1 v1 by simp
  obtain pr where pr: "stack2 (transpose4 key) val = Inr pr"
    using key val by (simp add: stack2_def transpose4_def)
  have "Attention_attn \<sigma> a q key val = Inl RuntimeError"
    using Attention_attn_too_long [of \<sigma> a S key q val] a q key val long S by simp
  then show ?thesis
    by (simp add: Attention_forward_def qkv wp pr)
qed

theorem too_long_fails_witness:
  "Attention_forward (ex_store 1 2) (ex_attn 1) ex_x3 None = Inl RuntimeError"
proof -
  have h: "d32 ex_x3 = 1" "0 < (1::nat)"
    "past_ok None (d30 ex_x3) (n_head (ex_attn 1)) (1 div n_head (ex_attn 1))"
    "2 < past_len None + d31 ex_x3" "(2::nat) \<noteq> 1"
    by (simp_all add: ex_x3_def)
  show ?thesis
    using too_long_fails [OF ex_attn_ok h] .
qed

text \<open>
  With maximum length 1 the slice is the single entry 1, which broadcasts against any
  scores: a two-token call returns, unmasked.
\<close>

theorem too_long_fails_counterexample:
  "\<not> isl (Attention_forward (ex_store 1 1) (ex_attn 1) ex_xa None)"
proof -
  let ?\<sigma> = "ex_store 1 1" and ?a = "ex_attn 1"
  have h: "d32 ex_xa = 1" "0 < (1::nat)" by (simp_all add: ex_xa_def)
  obtain q k1 v1 where qkv: "Attention_qkv ?\<sigma> ?a ex_xa = Inr (q, k1, v1)"
    and q: "d40 q = 1" "d41 q = 1" "d42 q = 2" "d43 q = 1"
    and k1: "d40 k1 = 1" "d41 k1 = 1" "d42 k1 = 1" "d43 k1 = 2"
    and v1: "d40 v1 = 1" "d41 v1 = 1" "d42 v1 = 2" "d43 v1 = 1"
    using Attention_qkv_ok [OF ex_attn_ok h] by (simp add: ex_xa_def ex_attn_def)
  obtain pr where pr: "stack2 (transpose4 k1) v1 = Inr pr"
    using k1 v1 by (simp add: stack2_def transpose4_def)
  obtain w where w: "Attention_scores ?a q k1 v1 = Inr w"
    "d40 w = 1" "d41 w = 1" "d42 w = 2" "d43 w = 2"
    using Attention_scores_ok [of k1 q ?a v1] q k1 by auto
  let ?b = "Attention_mask ?\<sigma> ?a w"
  have b: "d40 ?b = 1" "d41 ?b = 1" "d42 ?b = 1" "d43 ?b = 1"
    using w by (simp_all add: Attention_mask_def slice_rows_cols_def tril_ones_def Let_def
        ex_store_def py_clamp_def)
  obtain wb where wb: "binop4 (*) w ?b = Inr wb"
    "d40 wb = 1" "d41 wb = 1" "d42 wb = 2" "d43 wb = 2"
    using w b by (simp add: binop4_def bc_ok_def bc_def)
  obtain mm where mm0: "binop4 (-) wb (map4 (\<lambda>z. 10 ^ 10 * z) (map4 (\<lambda>z. 1 - z) ?b)) = Inr mm"
    and mmd: "d40 mm = 1" "d41 mm = 1" "d42 mm = 2" "d43 mm = 2"
    using wb b by (simp add: binop4_def map4_def bc_ok_def bc_def)
  have mm: "Attention_masked ?\<sigma> ?a w = Inr mm"
    using wb(1) mm0 by (simp add: Attention_masked_def Let_def)
  obtain out where out: "matmul4 (softmax4 mm) v1 = Inr out"
    "d40 out = 1" "d41 out = 1" "d42 out = 2" "d43 out = 1"
    using mmd v1 by (simp add: matmul4_def softmax4_def)
  obtain y where y: "Conv1D_forward ?\<sigma> (c_proj ?a) (merge_heads out) = Inr y"
    using out by (simp add: Conv1D_forward_def merge_heads_def view43_def permute_0213_def
        ex_store_def ex_attn_def zeros1_def Let_def)
  have "Attention_forward ?\<sigma> ?a ex_xa None = Inr (y, pr)"
    using qkv pr w(1) mm out(1) y
    by (simp add: Attention_forward_def with_past_def Attention_attn_def)
  then show ?thesis by simp
qed

section \<open>Causality\<close>























section \<open>Construction of a block\<close>

lemma Block_init_result:
  assumes "0 < nb_head" "feat_len mod nb_head = 0"
  shows "\<exists>bl \<sigma>'. Block_init seq_len feat_len nb_head eps sc \<sigma> = Inr (bl, \<sigma>')
     \<and> block_at bl (fresh \<sigma>) \<and> fresh \<sigma>' = fresh \<sigma> + 13
     \<and> block_ok \<sigma>' bl feat_len seq_len
     \<and> variance_epsilon (ln_1 bl) = eps \<and> variance_epsilon (ln_2 bl) = eps"
  using assms
  apply (simp add: Block_init_def Attention_init_def MLP_init_def Conv1D_init_def
      LayerNorm_init_def new_vec_def new_mat_def new_buf_def normal2_def Let_def
      case_prod_beta)
  apply (simp add: block_at_def block_ok_def ln_ok_def attention_ok_def mlp_ok_def
      conv1d_ok_def ones1_def zeros1_def mod_eq_0_iff_dvd)
  done

lemma Block_init_Inr:
  assumes "Block_init seq_len feat_len nb_head eps sc \<sigma> = Inr (bl, \<sigma>')"
  shows "block_at bl (fresh \<sigma>)" "fresh \<sigma>' = fresh \<sigma> + 13" "block_ok \<sigma>' bl feat_len seq_len"
    "variance_epsilon (ln_1 bl) = eps" "variance_epsilon (ln_2 bl) = eps"
proof -
  have h: "0 < nb_head" "feat_len mod nb_head = 0"
    using assms
    by (auto simp: Block_init_def Attention_init_def Let_def case_prod_beta split: if_splits)
  show "block_at bl (fresh \<sigma>)" "fresh \<sigma>' = fresh \<sigma> + 13" "block_ok \<sigma>' bl feat_len seq_len"
    "variance_epsilon (ln_1 bl) = eps" "variance_epsilon (ln_2 bl) = eps"
    using Block_init_result [OF h, of seq_len eps sc \<sigma>] assms by auto
qed

lemma LayerNorm_forward_ok:
  assumes "ln_ok \<sigma> m (d32 x)"
  shows "\<exists>y. LayerNorm_forward \<sigma> m x = Inr y \<and> d30 y = d30 x \<and> d31 y = d31 x \<and> d32 y = d32 x
     \<and> (\<forall>b<d30 x. \<forall>t<d31 x. \<forall>k<d32 x.
          el3 y b t k =
            el1 (vecs \<sigma> (ln_weight m)) k
            * ((el3 x b t k - (\<Sum>f<d32 x. el3 x b t f) / real (d32 x))
               / sqrt ((\<Sum>f<d32 x. (el3 x b t f - (\<Sum>f<d32 x. el3 x b t f) / real (d32 x)) ^ 2)
                        / real (d32 x) + variance_epsilon m))
            + el1 (vecs \<sigma> (ln_bias m)) k)"
  using assms
  by (simp add: ln_ok_def LayerNorm_forward_def Let_def binop3_def mean_last_def map3_def up13_def)

section \<open>The feed-forward network\<close>

lemma MLP_forward_ok:
  assumes ok: "mlp_ok \<sigma> m F" and x: "d32 x = F" and F: "0 < F"
  shows "\<exists>hid y. Conv1D_forward \<sigma> (c_fc m) x = Inr hid
     \<and> d30 hid = d30 x \<and> d31 hid = d31 x \<and> d32 hid = 4 * F
     \<and> MLP_forward \<sigma> m x = Inr y \<and> d30 y = d30 x \<and> d31 y = d31 x \<and> d32 y = F
     \<and> (\<forall>b t k. k < 4 * F \<longrightarrow>
           el3 hid b t k = el1 (vecs \<sigma> (bias (c_fc m))) k
                           + (\<Sum>i<F. el3 x b t i * el2 (mats \<sigma> (weight (c_fc m))) i k))
     \<and> (\<forall>b t j. j < F \<longrightarrow>
           el3 y b t j = el1 (vecs \<sigma> (bias (mlp_c_proj m))) j
             + (\<Sum>k<4 * F. (0.5 * el3 hid b t k
                              * (1 + tanh (sqrt (2 / pi)
                                     * (el3 hid b t k + 0.044715 * el3 hid b t k ^ 3))))
                           * el2 (mats \<sigma> (weight (mlp_c_proj m))) k j))"
proof -
  have c: "conv1d_ok \<sigma> (c_fc m) F" "nf (c_fc m) = 4 * F"
       "conv1d_ok \<sigma> (mlp_c_proj m) (4 * F)" "nf (mlp_c_proj m) = F"
    using ok by (simp_all add: mlp_ok_def)
  let ?hid = "\<lparr> d30 = d30 x, d31 = d31 x, d32 = nf (c_fc m),
       el3 = addmm_at (vecs \<sigma> (bias (c_fc m))) x (mats \<sigma> (weight (c_fc m))) \<rparr>"
  have h: "Conv1D_forward \<sigma> (c_fc m) x = Inr ?hid"
    by (rule Conv1D_forward_ok [OF c(1) x F])
  have g: "d32 (map3 gelu ?hid) = 4 * F" "0 < 4 * F"
    using c F by (simp_all add: map3_def)
  let ?y = "\<lparr> d30 = d30 (map3 gelu ?hid), d31 = d31 (map3 gelu ?hid), d32 = nf (mlp_c_proj m),
       el3 = addmm_at (vecs \<sigma> (bias (mlp_c_proj m))) (map3 gelu ?hid)
               (mats \<sigma> (weight (mlp_c_proj m))) \<rparr>"
  have y: "Conv1D_forward \<sigma> (mlp_c_proj m) (map3 gelu ?hid) = Inr ?y"
    by (rule Conv1D_forward_ok [OF c(3) g])
  have fw: "MLP_forward \<sigma> m x = Inr ?y"
    by (simp add: MLP_forward_def h y Let_def)
  have b1: "d10 (vecs \<sigma> (bias (c_fc m))) = 4 * F" "d10 (vecs \<sigma> (bias (mlp_c_proj m))) = F"
    using c by (simp_all add: conv1d_ok_def)
  show ?thesis
    apply (rule exI [of _ ?hid], rule exI [of _ ?y])
    using h fw c(2,4) b1 x
    apply (simp add: addmm_at_def map3_def gelu_def)
    done
qed



section \<open>The decoder block\<close>

lemma binop3_same:
  assumes "d30 y = d30 x" "d31 y = d31 x" "d32 y = d32 x"
  shows "\<exists>z. binop3 f x y = Inr z \<and> d30 z = d30 x \<and> d31 z = d31 x \<and> d32 z = d32 x
     \<and> (\<forall>b<d30 x. \<forall>t<d31 x. \<forall>k<d32 x. el3 z b t k = f (el3 x b t k) (el3 y b t k))"
  using assms by (simp add: binop3_def)

text \<open>
  Claim C2.  For a block built for \<open>F\<close> features, an input (B, T, F) and an optional
  cache that fits the mask, \<open>Block.forward\<close> returns \<open>(out, present)\<close> with
  \<open>x' = x + attn(ln_1(x))\<close> and \<open>out = x' + mlp(ln_2(x'))\<close>: each sub-layer reads the
  normalised tensor, and each residual sum adds the sub-layer's result to the tensor that
  was not normalised.
\<close>

theorem Block_forward_prenorm:
  assumes ok: "block_ok \<sigma> bl F S" and x: "d32 x = F" and F: "0 < F"
    and p: "past_ok lp (d30 x) (n_head (attn bl)) (F div n_head (attn bl))"
    and le: "past_len lp + d31 x \<le> S"
  shows "\<exists>n1 a present x1 n2 m out.
     LayerNorm_forward \<sigma> (ln_1 bl) x = Inr n1
     \<and> Attention_forward \<sigma> (attn bl) n1 lp = Inr (a, present)
     \<and> binop3 (+) x a = Inr x1
     \<and> LayerNorm_forward \<sigma> (ln_2 bl) x1 = Inr n2
     \<and> MLP_forward \<sigma> (mlp bl) n2 = Inr m
     \<and> binop3 (+) x1 m = Inr out
     \<and> Block_forward \<sigma> bl x lp = Inr (out, present)
     \<and> d30 out = d30 x \<and> d31 out = d31 x \<and> d32 out = d32 x
     \<and> (\<forall>b<d30 x. \<forall>t<d31 x. \<forall>k<d32 x.
           el3 x1 b t k = el3 x b t k + el3 a b t k
           \<and> el3 out b t k = el3 x1 b t k + el3 m b t k)"
proof -
  have o: "ln_ok \<sigma> (ln_1 bl) (d32 x)" "attention_ok \<sigma> (attn bl) F S"
      "ln_ok \<sigma> (ln_2 bl) F" "mlp_ok \<sigma> (mlp bl) F"
    using ok x by (simp_all add: block_ok_def)
  obtain n1 where n1: "LayerNorm_forward \<sigma> (ln_1 bl) x = Inr n1"
    and dn1: "d30 n1 = d30 x" "d31 n1 = d31 x" "d32 n1 = d32 x"
    using LayerNorm_forward_ok [OF o(1)] by (elim exE conjE) (rule that)
  have n1F: "d32 n1 = F" using dn1 x by simp
  have p1: "past_ok lp (d30 n1) (n_head (attn bl)) (F div n_head (attn bl))"
    using p dn1 by simp
  have le1: "past_len lp + d31 n1 \<le> S" using le dn1 by simp
  obtain a present where
    at: "Attention_forward \<sigma> (attn bl) n1 lp = Inr (a, present)"
    and da: "d30 a = d30 n1" "d31 a = d31 n1" "d32 a = F"
    using Attention_forward_ok [OF o(2) n1F F p1 le1] by (elim exE conjE) (rule that)
  have dax: "d30 a = d30 x" "d31 a = d31 x" "d32 a = d32 x"
    using da dn1 x by simp_all
  obtain x1 where x1: "binop3 (+) x a = Inr x1"
    and dx1: "d30 x1 = d30 x" "d31 x1 = d31 x" "d32 x1 = d32 x"
    and ex1: "\<forall>b<d30 x. \<forall>t<d31 x. \<forall>k<d32 x. el3 x1 b t k = el3 x b t k + el3 a b t k"
    using binop3_same [OF dax, of "(+)"] by (elim exE conjE) (rule that)
  have o2: "ln_ok \<sigma> (ln_2 bl) (d32 x1)" using o(3) dx1 x by simp
  obtain n2 where n2: "LayerNorm_forward \<sigma> (ln_2 bl) x1 = Inr n2"
    and dn2: "d30 n2 = d30 x1" "d31 n2 = d31 x1" "d32 n2 = d32 x1"
    using LayerNorm_forward_ok [OF o2] by (elim exE conjE) (rule that)
  have n2F: "d32 n2 = F" using dn2 dx1 x by simp
  obtain m where m: "MLP_forward \<sigma> (mlp bl) n2 = Inr m"
    and dm: "d30 m = d30 n2" "d31 m = d31 n2" "d32 m = F"
    using MLP_forward_ok [OF o(4) n2F F] by (elim exE conjE) (rule that)
  have dmx: "d30 m = d30 x1" "d31 m = d31 x1" "d32 m = d32 x1"
    using dm dn2 dx1 x by simp_all
  obtain out where out: "binop3 (+) x1 m = Inr out"
    and dout: "d30 out = d30 x1" "d31 out = d31 x1" "d32 out = d32 x1"
    and eout: "\<forall>b<d30 x1. \<forall>t<d31 x1. \<forall>k<d32 x1. el3 out b t k = el3 x1 b t k + el3 m b t k"
    using binop3_same [OF dmx, of "(+)"] by (elim exE conjE) (rule that)
  have fw: "Block_forward \<sigma> bl x lp = Inr (out, present)"
    by (simp add: Block_forward_def n1 at x1 n2 m out)
  show ?thesis
    apply (rule exI [of _ n1], rule exI [of _ a], rule exI [of _ present], rule exI [of _ x1],
        rule exI [of _ n2], rule exI [of _ m], rule exI [of _ out])
    using n1 at x1 n2 m out fw dout dx1 ex1 eout
    apply simp
    done
qed

theorem Block_forward_prenorm_witness:
  "\<exists>bl \<sigma> n1 a present x1 n2 m out.
     ex_block_init = Inr (bl, \<sigma>)
     \<and> LayerNorm_forward \<sigma> (ln_1 bl) (ex_x1 1) = Inr n1
     \<and> Attention_forward \<sigma> (attn bl) n1 None = Inr (a, present)
     \<and> binop3 (+) (ex_x1 1) a = Inr x1
     \<and> LayerNorm_forward \<sigma> (ln_2 bl) x1 = Inr n2
     \<and> MLP_forward \<sigma> (mlp bl) n2 = Inr m
     \<and> Block_forward \<sigma> bl (ex_x1 1) None = Inr (out, present)
     \<and> el3 x1 0 0 0 = el3 (ex_x1 1) 0 0 0 + el3 a 0 0 0
     \<and> el3 out 0 0 0 = el3 x1 0 0 0 + el3 m 0 0 0"
proof -
  obtain bl \<sigma> where b: "ex_block_init = Inr (bl, \<sigma>)"
    using Block_init_result [of 1 1 2 "1 / 10 ^ 5" "Some True" store0]
    by (auto simp: ex_block_init_def)
  have ok: "block_ok \<sigma> bl 1 2"
    using Block_init_Inr(3) [OF b [unfolded ex_block_init_def]] .
  have h: "d32 (ex_x1 1) = 1" "0 < (1::nat)"
    "past_ok None (d30 (ex_x1 1)) (n_head (attn bl)) (1 div n_head (attn bl))"
    "past_len None + d31 (ex_x1 1) \<le> 2"
    by (simp_all add: ex_x1_def)
  obtain n1 a present x1 n2 m out where
    "LayerNorm_forward \<sigma> (ln_1 bl) (ex_x1 1) = Inr n1"
    "Attention_forward \<sigma> (attn bl) n1 None = Inr (a, present)"
    "binop3 (+) (ex_x1 1) a = Inr x1"
    "LayerNorm_forward \<sigma> (ln_2 bl) x1 = Inr n2"
    "MLP_forward \<sigma> (mlp bl) n2 = Inr m"
    "Block_forward \<sigma> bl (ex_x1 1) None = Inr (out, present)"
    and e: "\<forall>b<d30 (ex_x1 1). \<forall>t<d31 (ex_x1 1). \<forall>k<d32 (ex_x1 1).
           el3 x1 b t k = el3 (ex_x1 1) b t k + el3 a b t k
           \<and> el3 out b t k = el3 x1 b t k + el3 m b t k"
    using Block_forward_prenorm [OF ok h] by (elim exE conjE) (rule that)
  moreover have "el3 x1 0 0 0 = el3 (ex_x1 1) 0 0 0 + el3 a 0 0 0
           \<and> el3 out 0 0 0 = el3 x1 0 0 0 + el3 m 0 0 0"
    using e [rule_format, of 0 0 0] by (simp add: ex_x1_def)
  ultimately show ?thesis using b by blast
qed

section \<open>The stack\<close>

lemma Block_forward_returns:
  assumes ok: "block_ok \<sigma> bl F S" and x: "d32 x = F" and F: "0 < F"
    and p: "past_ok lp (d30 x) (n_head (attn bl)) (F div n_head (attn bl))"
    and le: "past_len lp + d31 x \<le> S"
  shows "\<exists>out present. Block_forward \<sigma> bl x lp = Inr (out, present)
     \<and> d30 out = d30 x \<and> d31 out = d31 x \<and> d32 out = d32 x"
proof -
  have o: "ln_ok \<sigma> (ln_1 bl) (d32 x)" "attention_ok \<sigma> (attn bl) F S"
      "ln_ok \<sigma> (ln_2 bl) F" "mlp_ok \<sigma> (mlp bl) F"
    using ok x by (simp_all add: block_ok_def)
  obtain n1 where n1: "LayerNorm_forward \<sigma> (ln_1 bl) x = Inr n1"
    and dn1: "d30 n1 = d30 x" "d31 n1 = d31 x" "d32 n1 = d32 x"
    using LayerNorm_forward_ok [OF o(1)] by (elim exE conjE) (rule that)
  have n1F: "d32 n1 = F" using dn1 x by simp
  have p1: "past_ok lp (d30 n1) (n_head (attn bl)) (F div n_head (attn bl))"
    using p dn1 by simp
  have le1: "past_len lp + d31 n1 \<le> S" using le dn1 by simp
  obtain a present where
    at: "Attention_forward \<sigma> (attn bl) n1 lp = Inr (a, present)"
    and da: "d30 a = d30 n1" "d31 a = d31 n1" "d32 a = F"
    using Attention_forward_ok [OF o(2) n1F F p1 le1] by (elim exE conjE) (rule that)
  have dax: "d30 a = d30 x" "d31 a = d31 x" "d32 a = d32 x"
    using da dn1 x by simp_all
  obtain x1 where x1: "binop3 (+) x a = Inr x1"
    and dx1: "d30 x1 = d30 x" "d31 x1 = d31 x" "d32 x1 = d32 x"
    using binop3_same [OF dax, of "(+)"] by (elim exE conjE) (rule that)
  have o2: "ln_ok \<sigma> (ln_2 bl) (d32 x1)" using o(3) dx1 x by simp
  obtain n2 where n2: "LayerNorm_forward \<sigma> (ln_2 bl) x1 = Inr n2"
    and dn2: "d30 n2 = d30 x1" "d31 n2 = d31 x1" "d32 n2 = d32 x1"
    using LayerNorm_forward_ok [OF o2] by (elim exE conjE) (rule that)
  have n2F: "d32 n2 = F" using dn2 dx1 x by simp
  obtain m where m: "MLP_forward \<sigma> (mlp bl) n2 = Inr m"
    and dm: "d30 m = d30 n2" "d31 m = d31 n2" "d32 m = F"
    using MLP_forward_ok [OF o(4) n2F F] by (elim exE conjE) (rule that)
  have dmx: "d30 m = d30 x1" "d31 m = d31 x1" "d32 m = d32 x1"
    using dm dn2 dx1 x by simp_all
  obtain out where out: "binop3 (+) x1 m = Inr out"
    and dout: "d30 out = d30 x1" "d31 out = d31 x1" "d32 out = d32 x1"
    using binop3_same [OF dmx, of "(+)"] by (elim exE conjE) (rule that)
  have fw: "Block_forward \<sigma> bl x lp = Inr (out, present)"
    by (simp add: Block_forward_def n1 at x1 n2 m out)
  show ?thesis using fw dout dx1 by simp
qed

lemma thread_blocks_length:
  "thread_blocks \<sigma> bls cs x = Inr (y, ps) \<Longrightarrow> length ps = min (length bls) (length cs)"
proof (induction \<sigma> bls cs x arbitrary: y ps rule: thread_blocks.induct)
  case (1 \<sigma> bl bls c cs x)
  then show ?case
    by (auto simp: ebind_eq_Inr)
qed simp_all

lemma forward_loop_thread:
  assumes "length (h_blocks g) = n" "length caches = n" "\<forall>i<n. ints i = Some (caches ! i)"
    and "k \<le> n"
  shows "forward_loop \<sigma> g ints [n - k ..< n] x acc =
     ebind (thread_blocks \<sigma> (drop (n - k) (h_blocks g)) (drop (n - k) caches) x)
       (\<lambda>(y, ps). Inr (y, acc @ ps))"
  using assms(4)
proof (induction k arbitrary: x acc)
  case 0
  then show ?case using assms(1,2) by simp
next
  case (Suc k)
  let ?i = "n - Suc k"
  have i: "?i < n" "Suc ?i = n - k" using Suc.prems by simp_all
  have u: "[?i ..< n] = ?i # [n - k ..< n]"
    using i by (simp add: upt_conv_Cons)
  have dh: "drop ?i (h_blocks g) = h_blocks g ! ?i # drop (n - k) (h_blocks g)"
    using i assms(1) by (metis Cons_nth_drop_Suc)
  have dc: "drop ?i caches = caches ! ?i # drop (n - k) caches"
    using i assms(2) by (metis Cons_nth_drop_Suc)
  have ic: "ints ?i = Some (caches ! ?i)" using assms(3) i by simp
  have k: "k \<le> n" using Suc.prems by simp
  have nle: "\<not> length (h_blocks g) \<le> ?i" using i assms(1) by simp
  show ?case
  proof (cases "Block_forward \<sigma> (h_blocks g ! ?i) x (caches ! ?i)")
    case (Inl e)
    then show ?thesis using nle by (simp add: u dh dc ic)
  next
    case (Inr r)
    obtain x' present where r: "r = (x', present)" by (cases r)
    show ?thesis
    proof (cases "thread_blocks \<sigma> (drop (n - k) (h_blocks g)) (drop (n - k) caches) x'")
      case (Inl e)
      then show ?thesis
        using nle Inr r Suc.IH [OF k, of x' "acc @ [present]"]
        by (simp add: u dh dc ic)
    next
      case (Inr r2)
      obtain y ps where r2: "r2 = (y, ps)" by (cases r2)
      show ?thesis
        using nle \<open>Block_forward \<sigma> (h_blocks g ! ?i) x (caches ! ?i) = Inr r\<close> r Inr r2
          Suc.IH [OF k, of x' "acc @ [present]"]
        by (simp add: u dh dc ic)
    qed
  qed
qed

text \<open>
  Claim C5.  For a stack with \<open>N\<close> blocks and a state that maps every layer index
  below \<open>N\<close> to that layer's cache, the forward pass runs the blocks in index order,
  block \<open>i\<close> on the output of block \<open>i - 1\<close> and on cache entry \<open>i\<close>, and returns the
  final normalisation of the last block's output together with the mapping from each
  layer index below \<open>N\<close> to that block's updated cache; a failure of a block or of the
  final normalisation is the failure of the pass.
\<close>

theorem GPT2_forward_composition:
  assumes "length (h_blocks g) = nb_layer g" "length caches = nb_layer g"
    and "\<forall>i<nb_layer g. ints i = Some (caches ! i)"
  shows "GPT2_forward \<sigma> g input ints =
     ebind (thread_blocks \<sigma> (h_blocks g) caches input) (\<lambda>(x, ps).
     ebind (LayerNorm_forward \<sigma> (ln_f g) x) (\<lambda>y.
     Inr (y, (\<lambda>i. if i < nb_layer g then Some (ps ! i) else None))))"
proof -
  have fl: "forward_loop \<sigma> g ints [0 ..< nb_layer g] input [] =
     ebind (thread_blocks \<sigma> (h_blocks g) caches input) (\<lambda>(y, ps). Inr (y, ps))"
    using forward_loop_thread [OF assms, of "nb_layer g" \<sigma> input "[]"] by simp
  show ?thesis
  proof (cases "thread_blocks \<sigma> (h_blocks g) caches input")
    case (Inl e)
    then show ?thesis by (simp add: GPT2_forward_def fl)
  next
    case (Inr r)
    obtain x ps where r: "r = (x, ps)" by (cases r)
    have "length ps = nb_layer g"
      using thread_blocks_length [OF Inr [unfolded r]] assms(1,2) by simp
    then have "dict_enumerate ps = (\<lambda>i. if i < nb_layer g then Some (ps ! i) else None)"
      by (simp add: dict_enumerate_def)
    then show ?thesis using Inr r by (simp add: GPT2_forward_def fl)
  qed
qed

theorem GPT2_forward_composition_witness:
  "\<exists>bl \<sigma> x1 p1 x2 p2 y.
     ex_block_init = Inr (bl, \<sigma>)
     \<and> Block_forward \<sigma> bl (ex_x1 1) None = Inr (x1, p1)
     \<and> Block_forward \<sigma> bl x1 None = Inr (x2, p2)
     \<and> LayerNorm_forward \<sigma> (ln_1 bl) x2 = Inr y
     \<and> GPT2_forward \<sigma> (ex_stack bl) (ex_x1 1) (GPT2_new_internals (ex_stack bl))
         = Inr (y, (\<lambda>i. if i < 2 then Some ([p1, p2] ! i) else None))"
proof -
  obtain bl \<sigma> where b: "ex_block_init = Inr (bl, \<sigma>)"
    using Block_init_result [of 1 1 2 "1 / 10 ^ 5" "Some True" store0]
    by (auto simp: ex_block_init_def)
  have ok: "block_ok \<sigma> bl 1 2"
    using Block_init_Inr(3) [OF b [unfolded ex_block_init_def]] .
  have h: "d32 (ex_x1 1) = 1" "0 < (1::nat)"
    "past_ok None (d30 (ex_x1 1)) (n_head (attn bl)) (1 div n_head (attn bl))"
    "past_len None + d31 (ex_x1 1) \<le> 2"
    by (simp_all add: ex_x1_def)
  obtain x1 p1 where r1: "Block_forward \<sigma> bl (ex_x1 1) None = Inr (x1, p1)"
    and d1: "d30 x1 = d30 (ex_x1 1)" "d31 x1 = d31 (ex_x1 1)" "d32 x1 = d32 (ex_x1 1)"
    using Block_forward_returns [OF ok h] by (elim exE conjE) (rule that)
  have h2: "d32 x1 = 1" "0 < (1::nat)"
    "past_ok None (d30 x1) (n_head (attn bl)) (1 div n_head (attn bl))"
    "past_len None + d31 x1 \<le> 2"
    using d1 by (simp_all add: ex_x1_def)
  obtain x2 p2 where r2: "Block_forward \<sigma> bl x1 None = Inr (x2, p2)"
    and d2: "d30 x2 = d30 x1" "d31 x2 = d31 x1" "d32 x2 = d32 x1"
    using Block_forward_returns [OF ok h2] by (elim exE conjE) (rule that)
  have l: "ln_ok \<sigma> (ln_1 bl) (d32 x2)"
    using ok d2 h2(1) by (simp add: block_ok_def)
  obtain y where y: "LayerNorm_forward \<sigma> (ln_1 bl) x2 = Inr y"
    using LayerNorm_forward_ok [OF l] by (elim exE conjE) (rule that)
  have r: "replicate 2 None = [None, None :: t5 option]"
    by (simp add: numeral_2_eq_2)
  have g: "length (h_blocks (ex_stack bl)) = nb_layer (ex_stack bl)"
    "length [None, None :: t5 option] = nb_layer (ex_stack bl)"
    "\<forall>i<nb_layer (ex_stack bl).
        GPT2_new_internals (ex_stack bl) i = Some ([None, None] ! i)"
    by (simp_all add: ex_stack_def GPT2_new_internals_def dict_enumerate_def r)
  have "GPT2_forward \<sigma> (ex_stack bl) (ex_x1 1) (GPT2_new_internals (ex_stack bl))
         = Inr (y, (\<lambda>i. if i < 2 then Some ([p1, p2] ! i) else None))"
    unfolding GPT2_forward_composition [OF g]
    using r1 r2 y by (simp add: ex_stack_def)
  then show ?thesis using b r1 r2 y by blast
qed

section \<open>The normalisation\<close>

lemma deepcopy_layernorm_eps:
  "variance_epsilon (fst (deepcopy_layernorm m ms)) = variance_epsilon m"
  by (simp add: deepcopy_layernorm_def case_prod_beta Let_def)

lemma deepcopy_block_eps:
  "variance_epsilon (ln_1 (fst (deepcopy_block bl \<sigma>))) = variance_epsilon (ln_1 bl)"
  "variance_epsilon (ln_2 (fst (deepcopy_block bl \<sigma>))) = variance_epsilon (ln_2 bl)"
  by (simp_all add: deepcopy_block_def case_prod_beta Let_def deepcopy_layernorm_eps)

lemma deepcopies_eps:
  "b \<in> set (fst (deepcopies bl n \<sigma>)) \<Longrightarrow>
     variance_epsilon (ln_1 b) = variance_epsilon (ln_1 bl)
     \<and> variance_epsilon (ln_2 b) = variance_epsilon (ln_2 bl)"
proof (induction n arbitrary: \<sigma>)
  case 0
  then show ?case by simp
next
  case (Suc n)
  from Suc.prems have "b = fst (deepcopy_block bl \<sigma>)
      \<or> b \<in> set (fst (deepcopies bl n (snd (deepcopy_block bl \<sigma>))))"
    by (simp add: case_prod_beta Let_def)
  then show ?case
  proof
    assume "b = fst (deepcopy_block bl \<sigma>)"
    then show ?thesis by (simp add: deepcopy_block_eps)
  next
    assume "b \<in> set (fst (deepcopies bl n (snd (deepcopy_block bl \<sigma>))))"
    then show ?thesis by (rule Suc.IH)
  qed
qed

lemma GPT2_init_eps:
  assumes "GPT2_init input_shape n h eps \<sigma> = Inr (g, \<sigma>')"
  shows "variance_epsilon (ln_f g) = eps"
    "\<forall>b \<in> set (h_blocks g). variance_epsilon (ln_1 b) = eps \<and> variance_epsilon (ln_2 b) = eps"
proof -
  let ?S = "input_shape ! (length input_shape - 2)"
  let ?F = "input_shape ! (length input_shape - 1)"
  from assms have len: "\<not> length input_shape < 2"
    by (auto simp: GPT2_init_def split: if_splits)
  from assms len obtain bl \<sigma>1 where
    b: "Block_init ?S ?F h eps (Some True) \<sigma> = Inr (bl, \<sigma>1)"
    and g: "g = \<lparr> nb_layer = n, h_blocks = fst (deepcopies bl n \<sigma>1),
                 ln_f = fst (LayerNorm_init ?F (Some eps) (snd (deepcopies bl n \<sigma>1))) \<rparr>"
    by (auto simp: GPT2_init_def Let_def case_prod_beta ebind_eq_Inr)
  show "variance_epsilon (ln_f g) = eps"
    by (simp add: g LayerNorm_init_def case_prod_beta Let_def)
  show "\<forall>b \<in> set (h_blocks g). variance_epsilon (ln_1 b) = eps \<and> variance_epsilon (ln_2 b) = eps"
    using deepcopies_eps [of _ bl n \<sigma>1] Block_init_Inr(4,5) [OF b] by (simp add: g)
qed

text \<open>
  Claim C6, as the code has it.  For a normalisation whose scale and shift have as many
  entries as the input has features, \<open>LayerNorm.forward\<close> returns a tensor of the size of
  the input: every entry is the input entry minus the mean of its feature vector, divided
  by the square root of the variance of that vector (the mean of the squared deviations)
  plus epsilon, times the scale, plus the shift.  Epsilon is the number given to the
  constructor; a construction that omits it gets \<open>1e-12\<close>.  The value \<open>1e-5\<close> is the
  default of the stack, which passes it to every normalisation it builds.
\<close>

theorem LayerNorm_contract:
  assumes ok: "ln_ok \<sigma> m (d32 x)"
    and st: "GPT2_from_args GPT2_args input_shape \<sigma>0 = Inr (g, \<sigma>')"
  shows "(\<exists>y. LayerNorm_forward \<sigma> m x = Inr y
     \<and> d30 y = d30 x \<and> d31 y = d31 x \<and> d32 y = d32 x
     \<and> (\<forall>b<d30 x. \<forall>t<d31 x. \<forall>k<d32 x.
          el3 y b t k =
            el1 (vecs \<sigma> (ln_weight m)) k
            * ((el3 x b t k - (\<Sum>f<d32 x. el3 x b t f) / real (d32 x))
               / sqrt ((\<Sum>f<d32 x. (el3 x b t f - (\<Sum>f<d32 x. el3 x b t f) / real (d32 x)) ^ 2)
                        / real (d32 x) + variance_epsilon m))
            + el1 (vecs \<sigma> (ln_bias m)) k))
     \<and> variance_epsilon (fst (LayerNorm_init n (Some e) \<tau>)) = e
     \<and> variance_epsilon (fst (LayerNorm_init n None \<tau>)) = 1 / 10 ^ 12
     \<and> variance_epsilon (ln_f g) = 1 / 10 ^ 5
     \<and> (\<forall>b \<in> set (h_blocks g).
           variance_epsilon (ln_1 b) = 1 / 10 ^ 5 \<and> variance_epsilon (ln_2 b) = 1 / 10 ^ 5)"
proof (intro conjI)
  show "\<exists>y. LayerNorm_forward \<sigma> m x = Inr y
     \<and> d30 y = d30 x \<and> d31 y = d31 x \<and> d32 y = d32 x
     \<and> (\<forall>b<d30 x. \<forall>t<d31 x. \<forall>k<d32 x.
          el3 y b t k =
            el1 (vecs \<sigma> (ln_weight m)) k
            * ((el3 x b t k - (\<Sum>f<d32 x. el3 x b t f) / real (d32 x))
               / sqrt ((\<Sum>f<d32 x. (el3 x b t f - (\<Sum>f<d32 x. el3 x b t f) / real (d32 x)) ^ 2)
                        / real (d32 x) + variance_epsilon m))
            + el1 (vecs \<sigma> (ln_bias m)) k)"
    using ok by (rule LayerNorm_forward_ok)
  show "variance_epsilon (fst (LayerNorm_init n (Some e) \<tau>)) = e"
    by (simp add: LayerNorm_init_def case_prod_beta Let_def)
  show "variance_epsilon (fst (LayerNorm_init n None \<tau>)) = 1 / 10 ^ 12"
    by (simp add: LayerNorm_init_def case_prod_beta Let_def)
  have i: "GPT2_init input_shape 12 12 (1 / 10 ^ 5) \<sigma>0 = Inr (g, \<sigma>')"
    using st by (simp add: GPT2_from_args_def GPT2_args_def)
  show "variance_epsilon (ln_f g) = 1 / 10 ^ 5"
    using GPT2_init_eps(1) [OF i] .
  show "\<forall>b \<in> set (h_blocks g).
           variance_epsilon (ln_1 b) = 1 / 10 ^ 5 \<and> variance_epsilon (ln_2 b) = 1 / 10 ^ 5"
    using GPT2_init_eps(2) [OF i] .
qed

lemma deepcopies_length: "length (fst (deepcopies bl n \<sigma>)) = n"
  by (induction n arbitrary: \<sigma>) (simp_all add: case_prod_beta Let_def)

lemma GPT2_init_length:
  assumes "GPT2_init input_shape n h eps \<sigma> = Inr (g, \<sigma>')"
  shows "length (h_blocks g) = n" "nb_layer g = n"
  using assms
  by (auto simp: GPT2_init_def Let_def case_prod_beta ebind_eq_Inr deepcopies_length
      split: if_splits)

lemma ex_ln_ok: "ln_ok ex_ln_store ex_ln (d32 ex_x2)"
  by (simp add: ln_ok_def ex_ln_store_def ex_ln_def ex_x2_def)

theorem LayerNorm_contract_witness:
  "\<exists>y g \<sigma>'.
     LayerNorm_forward ex_ln_store ex_ln ex_x2 = Inr y
     \<and> el3 y 0 0 0 = 0 \<and> el3 y 0 0 1 = 2
     \<and> GPT2_from_args GPT2_args [2, 12] store0 = Inr (g, \<sigma>')
     \<and> length (h_blocks g) = 12
     \<and> variance_epsilon (ln_f g) = 1 / 10 ^ 5
     \<and> variance_epsilon (ln_1 (h_blocks g ! 0)) = 1 / 10 ^ 5
     \<and> variance_epsilon (ln_2 (h_blocks g ! 11)) = 1 / 10 ^ 5"
proof -
  obtain bl \<sigma>1 where b: "Block_init 2 12 12 (1 / 10 ^ 5) (Some True) store0 = Inr (bl, \<sigma>1)"
    using Block_init_result [of 12 12 2 "1 / 10 ^ 5" "Some True" store0] by auto
  obtain g \<sigma>' where st: "GPT2_from_args GPT2_args [2, 12] store0 = Inr (g, \<sigma>')"
    using b by (simp add: GPT2_from_args_def GPT2_args_def GPT2_init_def Let_def case_prod_beta)
  have i: "GPT2_init [2, 12] 12 12 (1 / 10 ^ 5) store0 = Inr (g, \<sigma>')"
    using st by (simp add: GPT2_from_args_def GPT2_args_def)
  have len: "length (h_blocks g) = 12" using GPT2_init_length(1) [OF i] .
  note c = LayerNorm_contract [where n = 1 and e = 1 and \<tau> = store0, OF ex_ln_ok st]
  obtain y where y: "LayerNorm_forward ex_ln_store ex_ln ex_x2 = Inr y"
    and e: "\<forall>b<d30 ex_x2. \<forall>t<d31 ex_x2. \<forall>k<d32 ex_x2.
          el3 y b t k =
            el1 (vecs ex_ln_store (ln_weight ex_ln)) k
            * ((el3 ex_x2 b t k - (\<Sum>f<d32 ex_x2. el3 ex_x2 b t f) / real (d32 ex_x2))
               / sqrt ((\<Sum>f<d32 ex_x2. (el3 ex_x2 b t f
                          - (\<Sum>f<d32 ex_x2. el3 ex_x2 b t f) / real (d32 ex_x2)) ^ 2)
                        / real (d32 ex_x2) + variance_epsilon ex_ln))
            + el1 (vecs ex_ln_store (ln_bias ex_ln)) k"
    using c by (elim exE conjE) (rule that)
  have s: "{..<2::nat} = {0, 1}" by auto
  have r: "sqrt 4 = 2" using real_sqrt_four by simp
  have y0: "el3 y 0 0 0 = 0"
    using e [rule_format, of 0 0 0] r
    by (simp add: ex_x2_def ex_ln_def ex_ln_store_def s)
  have y1: "el3 y 0 0 1 = 2"
    using e [rule_format, of 0 0 1] r
    by (simp add: ex_x2_def ex_ln_def ex_ln_store_def s)
  have f: "variance_epsilon (ln_f g) = 1 / 10 ^ 5"
    and a: "\<forall>b \<in> set (h_blocks g).
           variance_epsilon (ln_1 b) = 1 / 10 ^ 5 \<and> variance_epsilon (ln_2 b) = 1 / 10 ^ 5"
    using c by blast+
  have "h_blocks g ! 0 \<in> set (h_blocks g)" "h_blocks g ! 11 \<in> set (h_blocks g)"
    using len by simp_all
  then have "variance_epsilon (ln_1 (h_blocks g ! 0)) = 1 / 10 ^ 5"
    "variance_epsilon (ln_2 (h_blocks g ! 11)) = 1 / 10 ^ 5"
    using a by blast+
  then show ?thesis using y y0 y1 st len f by blast
qed

text \<open>
  A normalisation constructed without an epsilon has \<open>1e-12\<close>, not \<open>1e-5\<close>.
\<close>

theorem LayerNorm_contract_counterexample:
  "variance_epsilon (fst (LayerNorm_init 1 None store0)) \<noteq> 1 / 10 ^ 5"
  by (simp add: LayerNorm_init_def case_prod_beta Let_def)

end
